theory Spec2Isabelle
  imports Main
begin

section \<open>JavaScript values and strings\<close>

text \<open>
  A JavaScript string is a sequence of UTF-16 code units; message text is modelled as the
  list of its code units, so that \<open>String.prototype.trim\<close> can be written out exactly.
  Identifiers (object ids, token strings, message types, error codes) are plain ASCII
  and are modelled as \<open>string\<close>.
\<close>

type_synonym jstring = "nat list"

definition ascii :: "string \<Rightarrow> jstring" where
  "ascii s = map of_char s"

text \<open>
  The request body is parsed JSON, so a field may hold any JSON value or be absent.
  Only the \<open>text\<close> field is inspected by type in the source (\<open>typeof text !== 'string'\<close>),
  so only it is given this type; the other fields have the types of the schema.
  Numbers are integers here, and arrays and objects are one opaque constructor.
\<close>

datatype jsval = JUndefined | JNull | JBool bool | JNum int | JStr jstring | JObject

fun truthy :: "jsval \<Rightarrow> bool" where
  "truthy JUndefined = False"
| "truthy JNull = False"
| "truthy (JBool b) = b"
| "truthy (JNum n) = (n \<noteq> 0)"
| "truthy (JStr s) = (s \<noteq> [])"
| "truthy JObject = True"

fun isString :: "jsval \<Rightarrow> bool" where
  "isString (JStr s) = True"
| "isString v = False"

text \<open>The WhiteSpace and LineTerminator code units that \<open>trim\<close> strips.\<close>

definition isWhiteSpace :: "nat \<Rightarrow> bool" where
  "isWhiteSpace c =
     (c \<in> {0x09, 0x0A, 0x0B, 0x0C, 0x0D, 0x20, 0xA0, 0x1680, 0x2028, 0x2029, 0x202F,
            0x205F, 0x3000, 0xFEFF}
      \<or> (0x2000 \<le> c \<and> c \<le> 0x200A))"

definition trim :: "jstring \<Rightarrow> jstring" where
  "trim s = rev (dropWhile isWhiteSpace (rev (dropWhile isWhiteSpace s)))"

section \<open>Data model\<close>

text \<open>
  An ObjectId is modelled by its canonical string form, and \<open>new ObjectId(s)\<close> is \<open>s\<close>
  itself. Which strings the driver accepts (\<open>mongoose.Types.ObjectId.isValid\<close>) is a
  parameter \<open>isValid\<close> of every handler. Timestamps are milliseconds as \<open>nat\<close>; a
  handler reads the clock once (\<open>now\<close>). A collection is the list of its documents in
  insertion order. The operations of the store itself are taken to succeed; what a
  handler can throw on its own (a TypeError, a rejected ObjectId, a schema validation)
  is a branch of the model. The \<open>heartedBy\<close> field of a message, which no handler here
  reads or writes, is left out.
\<close>

type_synonym oid = string

record last_message =
  lm_text :: jstring
  lm_senderId :: "oid option"
  lm_createdAt :: nat

record conversation =
  c_id :: oid
  participants :: "oid list"
  lastMessage :: last_message
  unreadCount :: "string \<rightharpoonup> nat"
  c_createdAt :: nat
  c_updatedAt :: nat

record reply =
  r_id :: oid
  r_text :: jstring
  r_senderId :: "oid option"

record message =
  m_id :: oid
  conversationId :: oid
  senderId :: oid
  receiverId :: oid
  messageType :: string
  m_text :: jstring
  voiceUrl :: "string option"
  voiceDuration :: "nat option"
  replyTo :: "reply option"
  isRead :: bool
  readAt :: "nat option"
  m_createdAt :: nat

text \<open>
  The profile fields the chat service selects. \<open>u_photoKey\<close> is the object-store key of
  \<open>userPhoto[0]\<close> when there is one.
\<close>

record user =
  u_id :: oid
  u_name :: "jstring option"
  u_age :: "nat option"
  u_photoKey :: "string option"
  u_city :: "jstring option"
  u_userLocation :: "jstring option"
  u_isOnline :: bool
  u_lastSeen :: "nat option"

record deviceToken =
  t_userId :: oid
  fcmToken :: string
  platform :: string
  deviceId :: "string option"
  isActive :: bool
  t_createdAt :: nat
  t_updatedAt :: nat

record db =
  conversations :: "conversation list"
  messages :: "message list"
  users :: "user list"
  deviceTokens :: "deviceToken list"

text \<open>The HTTP outcome of a handler: the status code with its JSON body.\<close>

datatype 'a response =
    Unauthorized
  | BadRequest string
  | NotFound string
  | ServerError
  | Ok 'a
  | Created 'a

text \<open>\<open>!userId || !mongoose.Types.ObjectId.isValid(String(userId))\<close>\<close>

definition validUser :: "(string \<Rightarrow> bool) \<Rightarrow> string option \<Rightarrow> bool" where
  "validUser isValid userId =
     (case userId of None \<Rightarrow> False | Some u \<Rightarrow> u \<noteq> [] \<and> isValid u)"

definition validId :: "(string \<Rightarrow> bool) \<Rightarrow> string \<Rightarrow> bool" where
  "validId isValid i = (i \<noteq> [] \<and> isValid i)"

text \<open>\<open>Conversation.findOne({ participants: { $all: [a, b] } })\<close>: the first match.\<close>

definition findConversation :: "db \<Rightarrow> oid \<Rightarrow> oid \<Rightarrow> conversation option" where
  "findConversation d a b =
     find (\<lambda>c. a \<in> set (participants c) \<and> b \<in> set (participants c)) (conversations d)"

text \<open>
  \<open>.sort({ k: -1 })\<close>: descending by key. The store does not fix the order of equal
  keys; the model takes the reverse of the stable ascending sort.
\<close>

definition sortDesc :: "('a \<Rightarrow> nat) \<Rightarrow> 'a list \<Rightarrow> 'a list" where
  "sortDesc k xs = rev (sort_key k xs)"

section \<open>getMessages\<close>

text \<open>
  \<open>gm_page\<close> and \<open>gm_limit\<close> are the results of \<open>parseInt\<close> on the query parameters,
  \<open>None\<close> for \<open>NaN\<close> (an absent or non-numeric parameter).
\<close>

record messages_req =
  gm_userId :: "string option"
  gm_recipientId :: string
  gm_page :: "int option"
  gm_limit :: "int option"

record messages_res =
  res_messages :: "message list"
  res_conversationId :: "oid option"
  res_page :: int
  res_hasMore :: bool

text \<open>\<open>parseInt(x) || d\<close>: \<open>NaN\<close> and \<open>0\<close> are falsy.\<close>

definition orDefault :: "int option \<Rightarrow> int \<Rightarrow> int" where
  "orDefault p d = (case p of None \<Rightarrow> d | Some n \<Rightarrow> if n = 0 then d else n)"

definition pageOf :: "messages_req \<Rightarrow> int" where
  "pageOf req = max 1 (orDefault (gm_page req) 1)"

definition limitOf :: "messages_req \<Rightarrow> int" where
  "limitOf req = min 50 (max 1 (orDefault (gm_limit req) 30))"

definition getMessages ::
  "(string \<Rightarrow> bool) \<Rightarrow> db \<Rightarrow> messages_req \<Rightarrow> messages_res response" where
  "getMessages isValid d req =
     (let page = pageOf req;
          limit = limitOf req;
          skip = (page - 1) * limit
      in if \<not> validUser isValid (gm_userId req) then Unauthorized
         else if \<not> validId isValid (gm_recipientId req) then BadRequest ''Invalid recipient id''
         else
           case findConversation d (the (gm_userId req)) (gm_recipientId req) of
             None \<Rightarrow>
               Ok \<lparr>res_messages = [], res_conversationId = None, res_page = page,
                   res_hasMore = False\<rparr>
           | Some conversation \<Rightarrow>
               let found = take (nat (limit + 1)) (drop (nat skip)
                     (sortDesc m_createdAt
                        (filter (\<lambda>m. conversationId m = c_id conversation) (messages d))));
                   hasMore = (int (length found) > limit);
                   messagesToReturn = (if hasMore then take (nat limit) found else found)
               in Ok \<lparr>res_messages = rev messagesToReturn,
                      res_conversationId = Some (c_id conversation),
                      res_page = page, res_hasMore = hasMore\<rparr>)"

section \<open>sendMessage\<close>

record reply_req =
  rq_id :: "string option"
  rq_text :: "jstring option"
  rq_senderId :: "string option"

record send_req =
  sm_userId :: "string option"
  sm_recipientId :: string
  sm_text :: jsval
  sm_replyTo :: "reply_req option"
  sm_messageType :: "string option"
  sm_voiceUrl :: "string option"
  sm_voiceDuration :: "nat option"

record message_payload =
  p_id :: oid
  p_conversationId :: oid
  p_senderId :: oid
  p_receiverId :: oid
  p_messageType :: string
  p_text :: jstring
  p_voiceUrl :: "string option"
  p_voiceDuration :: "nat option"
  p_replyTo :: "reply option"
  p_isRead :: bool
  p_createdAt :: nat

text \<open>Truthiness of an optional string field: present and not empty.\<close>

definition present :: "'a list option \<Rightarrow> bool" where
  "present v = (case v of None \<Rightarrow> False | Some s \<Rightarrow> s \<noteq> [])"

text \<open>\<open>const { messageType = 'text' } = req.body\<close>\<close>

definition messageTypeOf :: "send_req \<Rightarrow> string" where
  "messageTypeOf req = (case sm_messageType req of None \<Rightarrow> ''text'' | Some t \<Rightarrow> t)"

fun strOf :: "jsval \<Rightarrow> jstring" where
  "strOf (JStr s) = s"
| "strOf v = []"

text \<open>The content check: the message of the 400 response it ends in, if any.\<close>

definition contentError :: "send_req \<Rightarrow> string option" where
  "contentError req =
     (let mType = messageTypeOf req; text = sm_text req
      in if mType = ''text'' then
           (if \<not> truthy text \<or> \<not> isString text \<or> length (trim (strOf text)) = 0
            then Some ''Message text is required'' else None)
         else if mType = ''voice'' then
           (if \<not> present (sm_voiceUrl req) then Some ''Voice URL is required'' else None)
         else None)"

text \<open>
  \<open>text ? text.trim() : ''\<close>. A truthy value that is not a string has no \<open>trim\<close>: the
  call throws a TypeError (\<open>None\<close>).
\<close>

definition messageTextOf :: "jsval \<Rightarrow> jstring option" where
  "messageTextOf text =
     (if \<not> truthy text then Some []
      else case text of JStr s \<Rightarrow> Some (trim s) | _ \<Rightarrow> None)"

text \<open>
  The \<open>replyTo\<close> snapshot. \<open>new ObjectId(x)\<close> throws on a string the driver does not
  accept (outer \<open>None\<close>).
\<close>

definition replyToDataOf :: "(string \<Rightarrow> bool) \<Rightarrow> reply_req option \<Rightarrow> reply option option" where
  "replyToDataOf isValid rt =
     (case rt of
        None \<Rightarrow> Some None
      | Some r \<Rightarrow>
          if present (rq_id r) \<and> present (rq_text r) then
            (if \<not> isValid (the (rq_id r)) then None
             else if \<not> present (rq_senderId r) then
               Some (Some \<lparr>r_id = the (rq_id r), r_text = the (rq_text r), r_senderId = None\<rparr>)
             else if \<not> isValid (the (rq_senderId r)) then None
             else Some (Some \<lparr>r_id = the (rq_id r), r_text = the (rq_text r),
                               r_senderId = rq_senderId r\<rparr>))
          else Some None)"

text \<open>The preview of a voice message: a microphone sign and "voice message" in Russian.\<close>

definition voicePreview :: jstring where
  "voicePreview =
     [0xD83C, 0xDFA4, 0x20, 0x413, 0x43E, 0x43B, 0x43E, 0x441, 0x43E, 0x432, 0x43E, 0x435,
      0x20, 0x441, 0x43E, 0x43E, 0x431, 0x449, 0x435, 0x43D, 0x438, 0x435]"

definition previewTextOf :: "string \<Rightarrow> jstring \<Rightarrow> jstring" where
  "previewTextOf mType messageText =
     (if mType = ''voice'' then voicePreview else messageText)"

text \<open>The \<open>enum\<close> of \<open>messageType\<close> in the message schema.\<close>

definition messageTypes :: "string list" where
  "messageTypes = [''text'', ''voice'', ''image'']"

text \<open>
  \<open>Message.create(messageData)\<close> with the schema's defaults and its \<open>trim\<close> setter on
  \<open>text\<close>; the voice fields are copied for a voice message only.
\<close>

definition newMessage ::
  "nat \<Rightarrow> oid \<Rightarrow> oid \<Rightarrow> oid \<Rightarrow> oid \<Rightarrow> string \<Rightarrow> jstring \<Rightarrow> reply option \<Rightarrow> send_req \<Rightarrow> message" where
  "newMessage now newMsgId convId userId recipientId mType messageText replyToData req =
     \<lparr>m_id = newMsgId, conversationId = convId, senderId = userId, receiverId = recipientId,
      messageType = mType, m_text = trim messageText,
      voiceUrl = (if mType = ''voice'' then sm_voiceUrl req else None),
      voiceDuration =
        (if mType = ''voice''
         then Some (case sm_voiceDuration req of None \<Rightarrow> 0 | Some n \<Rightarrow> n) else None),
      replyTo = replyToData, isRead = False, readAt = None, m_createdAt = now\<rparr>"

text \<open>The response body: \<open>voiceUrl || null\<close>, \<open>voiceDuration || null\<close>.\<close>

definition payloadOf :: "message \<Rightarrow> message_payload" where
  "payloadOf m =
     \<lparr>p_id = m_id m, p_conversationId = conversationId m, p_senderId = senderId m,
      p_receiverId = receiverId m, p_messageType = messageType m, p_text = m_text m,
      p_voiceUrl = (if present (voiceUrl m) then voiceUrl m else None),
      p_voiceDuration = (if voiceDuration m = Some 0 then None else voiceDuration m),
      p_replyTo = replyTo m, p_isRead = isRead m, p_createdAt = m_createdAt m\<rparr>"

text \<open>An update by id (\<open>findByIdAndUpdate\<close>, \<open>save\<close>) changes the first matching record.\<close>

fun updateFirst :: "('a \<Rightarrow> bool) \<Rightarrow> ('a \<Rightarrow> 'a) \<Rightarrow> 'a list \<Rightarrow> 'a list" where
  "updateFirst P f [] = []"
| "updateFirst P f (x # xs) = (if P x then f x # xs else x # updateFirst P f xs)"

text \<open>\<open>conversation.unreadCount?.get?.(key) || 0\<close> on a Mongoose document (a real Map).\<close>

definition currentUnreadOf :: "conversation \<Rightarrow> string \<Rightarrow> nat" where
  "currentUnreadOf c key = (case unreadCount c key of None \<Rightarrow> 0 | Some n \<Rightarrow> n)"

text \<open>
  The store steps shared by both revisions of \<open>sendMessage\<close>, after the conversation has
  been found or created: create the message (the schema refuses a type outside its
  enum, which surfaces as 500), then update the conversation by id.
\<close>

definition storeMessage ::
  "nat \<Rightarrow> oid \<Rightarrow> db \<Rightarrow> conversation \<Rightarrow> oid \<Rightarrow> oid \<Rightarrow> string \<Rightarrow> jstring \<Rightarrow> reply option
     \<Rightarrow> send_req \<Rightarrow> message_payload response \<times> db" where
  "storeMessage now newMsgId d conversation userId recipientId mType messageText
       replyToData req =
     (if mType \<notin> set messageTypes then (ServerError, d)
      else
        let message = newMessage now newMsgId (c_id conversation) userId recipientId
                        mType messageText replyToData req;
            d' = d\<lparr>messages := messages d @ [message]\<rparr>;
            currentUnread = currentUnreadOf conversation recipientId;
            d'' = d'\<lparr>conversations :=
                    updateFirst (\<lambda>c. c_id c = c_id conversation)
                      (\<lambda>c. c\<lparr>lastMessage :=
                                 \<lparr>lm_text = previewTextOf mType messageText,
                                  lm_senderId = Some userId,
                                  lm_createdAt = m_createdAt message\<rparr>,
                               unreadCount := (unreadCount c)(recipientId \<mapsto> currentUnread + 1),
                               c_updatedAt := now\<rparr>)
                      (conversations d')\<rparr>
        in (Created (payloadOf message), d''))"

text \<open>
  \<open>Conversation.create\<close> of a first message; \<open>newConvId\<close> is the id the store assigns.
  The two revisions differ in the initial unread map, passed as \<open>unread0\<close>.
\<close>

definition createConversation ::
  "nat \<Rightarrow> oid \<Rightarrow> db \<Rightarrow> oid \<Rightarrow> oid \<Rightarrow> jstring \<Rightarrow> (string \<rightharpoonup> nat) \<Rightarrow> conversation \<times> db" where
  "createConversation now newConvId d userId recipientId previewText unread0 =
     (let conversation =
            \<lparr>c_id = newConvId, participants = [userId, recipientId],
             lastMessage = \<lparr>lm_text = previewText, lm_senderId = Some userId, lm_createdAt = now\<rparr>,
             unreadCount = unread0, c_createdAt = now, c_updatedAt = now\<rparr>
      in (conversation, d\<lparr>conversations := conversations d @ [conversation]\<rparr>))"

text \<open>
  \<open>sendMessage\<close> of \<open>src/controllers/chatController.js\<close>: a new conversation starts with
  \<open>new Map([[recipientId.toString(), 1]])\<close>.
\<close>

definition sendMessage ::
  "(string \<Rightarrow> bool) \<Rightarrow> nat \<Rightarrow> oid \<Rightarrow> oid \<Rightarrow> db \<Rightarrow> send_req \<Rightarrow> message_payload response \<times> db" where
  "sendMessage isValid now newConvId newMsgId d req =
     (if \<not> validUser isValid (sm_userId req) then (Unauthorized, d)
      else if \<not> validId isValid (sm_recipientId req) then (BadRequest ''Invalid recipient id'', d)
      else
        case contentError req of
          Some e \<Rightarrow> (BadRequest e, d)
        | None \<Rightarrow>
          (case messageTextOf (sm_text req) of
             None \<Rightarrow> (ServerError, d)
           | Some messageText \<Rightarrow>
             (case replyToDataOf isValid (sm_replyTo req) of
                None \<Rightarrow> (ServerError, d)
              | Some replyToData \<Rightarrow>
                  let userId = the (sm_userId req);
                      recipientId = sm_recipientId req;
                      mType = messageTypeOf req;
                      previewText = previewTextOf mType messageText;
                      (conversation, d1) =
                        (case findConversation d userId recipientId of
                           Some c \<Rightarrow> (c, d)
                         | None \<Rightarrow>
                             createConversation now newConvId d userId recipientId previewText
                               [recipientId \<mapsto> 1])
                  in storeMessage now newMsgId d1 conversation userId recipientId mType
                       messageText replyToData req)))"

section \<open>Push notification service\<close>

record notification =
  n_title :: jstring
  n_body :: jstring
  n_data :: "(string \<times> jstring) list"

text \<open>
  One entry of the provider's multicast answer: \<open>resp.success\<close>, or the failure with
  \<open>resp.error?.code\<close>. The provider call can also throw as a whole. The answer's
  \<open>successCount\<close> and \<open>failureCount\<close> are the counts of its entries.
\<close>

datatype send_response = Delivered | Failed "string option"

datatype provider_outcome = Throws string | Responds "send_response list"

definition successCount :: "send_response list \<Rightarrow> nat" where
  "successCount rs = length (filter (\<lambda>r. r = Delivered) rs)"

definition failureCount :: "send_response list \<Rightarrow> nat" where
  "failureCount rs = length (filter (\<lambda>r. r \<noteq> Delivered) rs)"

text \<open>The two error codes that mark a token as permanently invalid.\<close>

definition invalidTokenCode :: "send_response \<Rightarrow> bool" where
  "invalidTokenCode resp =
     (case resp of
        Delivered \<Rightarrow> False
      | Failed errorCode \<Rightarrow>
          errorCode = Some ''messaging/invalid-registration-token'' \<or>
          errorCode = Some ''messaging/registration-token-not-registered'')"

text \<open>
  The \<open>forEach\<close> over the responses: the token at the index of each response with one of
  the two codes (a response beyond the last token names no token).
\<close>

definition failedTokensOf :: "string list \<Rightarrow> send_response list \<Rightarrow> string list" where
  "failedTokensOf fcmTokens responses =
     (if failureCount responses > 0
      then map fst (filter (\<lambda>(tok, resp). invalidTokenCode resp) (zip fcmTokens responses))
      else [])"

text \<open>The value \<open>sendPushToUser\<close> resolves to.\<close>

datatype push_result =
    FirebaseNotInitialized
  | NoTokens
  | PushSent nat
  | PushError string

record services =
  firebaseInitialized :: bool
  provider :: "string list \<Rightarrow> notification \<Rightarrow> provider_outcome"
  ioReady :: bool

text \<open>The body of the \<open>try\<close> block: \<open>Inl\<close> is an exception thrown inside it.\<close>

definition sendPushBody ::
  "services \<Rightarrow> nat \<Rightarrow> db \<Rightarrow> oid \<Rightarrow> notification \<Rightarrow> string + (push_result \<times> db)" where
  "sendPushBody sv now d userId n =
     (let tokens = filter (\<lambda>t. t_userId t = userId \<and> isActive t) (deviceTokens d)
      in if length tokens = 0 then Inr (NoTokens, d)
         else
           let fcmTokens = map fcmToken tokens
           in case provider sv fcmTokens n of
                Throws e \<Rightarrow> Inl e
              | Responds responses \<Rightarrow>
                  let failedTokens = failedTokensOf fcmTokens responses;
                      d' = (if length failedTokens > 0
                            then d\<lparr>deviceTokens :=
                                     map (\<lambda>t. if fcmToken t \<in> set failedTokens
                                               then t\<lparr>isActive := False, t_updatedAt := now\<rparr>
                                               else t)
                                       (deviceTokens d)\<rparr>
                            else d)
                  in Inr (PushSent (successCount responses), d'))"

definition sendPushToUser ::
  "services \<Rightarrow> nat \<Rightarrow> db \<Rightarrow> oid \<Rightarrow> notification \<Rightarrow> push_result \<times> db" where
  "sendPushToUser sv now d userId n =
     (if \<not> firebaseInitialized sv then (FirebaseNotInitialized, d)
      else case sendPushBody sv now d userId n of
             Inl e \<Rightarrow> (PushError e, d)
           | Inr r \<Rightarrow> r)"

definition orElse :: "jstring option \<Rightarrow> jstring \<Rightarrow> jstring" where
  "orElse v d = (if present v then the v else d)"

text \<open>"New message", "User" and "Voice message" in Russian.\<close>

definition titleNewMessage :: jstring where
  "titleNewMessage =
     [0x41D, 0x43E, 0x432, 0x43E, 0x435, 0x20, 0x441, 0x43E, 0x43E, 0x431, 0x449, 0x435,
      0x43D, 0x438, 0x435]"

definition defaultSenderName :: jstring where
  "defaultSenderName =
     [0x41F, 0x43E, 0x43B, 0x44C, 0x437, 0x43E, 0x432, 0x430, 0x442, 0x435, 0x43B, 0x44C]"

definition defaultBodyText :: jstring where
  "defaultBodyText =
     [0x413, 0x43E, 0x43B, 0x43E, 0x441, 0x43E, 0x432, 0x43E, 0x435, 0x20, 0x441, 0x43E,
      0x43E, 0x431, 0x449, 0x435, 0x43D, 0x438, 0x435]"

definition sendNewMessageNotification ::
  "services \<Rightarrow> nat \<Rightarrow> db \<Rightarrow> oid \<Rightarrow> oid \<Rightarrow> jstring option \<Rightarrow> jstring \<Rightarrow> oid
     \<Rightarrow> push_result \<times> db" where
  "sendNewMessageNotification sv now d recipientId senderOid senderName messageText convId =
     sendPushToUser sv now d recipientId
       \<lparr>n_title = titleNewMessage,
        n_body = orElse senderName defaultSenderName @ ascii '': '' @
                 orElse (Some messageText) defaultBodyText,
        n_data = [(''type'', ascii ''new_message''),
                  (''conversationId'', ascii convId),
                  (''senderId'', ascii senderOid),
                  (''senderName'', orElse senderName [])]\<rparr>"

text \<open>
  \<open>registerDeviceToken\<close>. \<open>save\<close> and \<open>create\<close> validate against the schema: the owner
  casts to an ObjectId, the token is required, the platform is in its enum. A failed
  validation throws, is caught, and nothing is written.
\<close>

datatype register_result = Registered | RegisterFailed

definition tokenSchemaOk :: "(string \<Rightarrow> bool) \<Rightarrow> string \<Rightarrow> string \<Rightarrow> string \<Rightarrow> bool" where
  "tokenSchemaOk isValid userId tok plat =
     (isValid userId \<and> tok \<noteq> [] \<and> plat \<in> {''android'', ''ios''})"

definition registerDeviceToken ::
  "(string \<Rightarrow> bool) \<Rightarrow> nat \<Rightarrow> db \<Rightarrow> string \<Rightarrow> string \<Rightarrow> string option \<Rightarrow> string option
     \<Rightarrow> register_result \<times> db" where
  "registerDeviceToken isValid now d userId tok platformArg deviceIdArg =
     (let plat = (case platformArg of None \<Rightarrow> ''android'' | Some p \<Rightarrow> p)
      in case find (\<lambda>t. fcmToken t = tok) (deviceTokens d) of
           Some existingToken \<Rightarrow>
             if \<not> tokenSchemaOk isValid userId tok plat then (RegisterFailed, d)
             else
               (Registered,
                d\<lparr>deviceTokens :=
                    updateFirst (\<lambda>t. fcmToken t = tok)
                      (\<lambda>t. t\<lparr>t_userId := userId, platform := plat, deviceId := deviceIdArg,
                              isActive := True, t_updatedAt := now\<rparr>)
                      (deviceTokens d)\<rparr>)
         | None \<Rightarrow>
             if \<not> tokenSchemaOk isValid userId tok plat then (RegisterFailed, d)
             else
               (Registered,
                d\<lparr>deviceTokens := deviceTokens d @
                    [\<lparr>t_userId = userId, fcmToken = tok, platform = plat,
                      deviceId = deviceIdArg, isActive = True, t_createdAt = now,
                      t_updatedAt = now\<rparr>]\<rparr>))"

text \<open>A sequence of registrations \<open>(now, userId, fcmToken, platform, deviceId)\<close>, in order.\<close>

type_synonym registration = "nat \<times> string \<times> string \<times> string option \<times> string option"

fun registerAll :: "(string \<Rightarrow> bool) \<Rightarrow> db \<Rightarrow> registration list \<Rightarrow> db" where
  "registerAll isValid d [] = d"
| "registerAll isValid d ((now, userId, tok, plat, dev) # rs) =
     registerAll isValid (snd (registerDeviceToken isValid now d userId tok plat dev)) rs"

section \<open>sendMessage, revised: with push and realtime delivery\<close>

record hub_event =
  ev_room :: string
  ev_event :: string
  ev_message :: message_payload
  ev_senderId :: string

text \<open>\<open>emitToUser\<close>: nothing when the hub is not initialised.\<close>

definition emitToUser :: "bool \<Rightarrow> string \<Rightarrow> string \<Rightarrow> message_payload \<Rightarrow> string \<Rightarrow> hub_event list" where
  "emitToUser io userId event payload sender =
     (if \<not> io then []
      else [\<lparr>ev_room = ''user:'' @ userId, ev_event = event, ev_message = payload,
             ev_senderId = sender\<rparr>])"

text \<open>
  \<open>sendMessage\<close> of the revised controller (\<open>src/unnamed/part_001\<close>): a new conversation
  starts with \<open>new Map()\<close>; after the conversation update the recipient is notified by
  push (not awaited, its rejection logged) and through the hub. The push runs in the
  background; the model lets it finish within the step, so the returned store shows its
  effect on the device tokens.
\<close>

definition sendMessage_part001 ::
  "(string \<Rightarrow> bool) \<Rightarrow> services \<Rightarrow> nat \<Rightarrow> oid \<Rightarrow> oid \<Rightarrow> db \<Rightarrow> send_req
     \<Rightarrow> (message_payload response \<times> db) \<times> hub_event list" where
  "sendMessage_part001 isValid sv now newConvId newMsgId d req =
     (if \<not> validUser isValid (sm_userId req) then ((Unauthorized, d), [])
      else if \<not> validId isValid (sm_recipientId req)
      then ((BadRequest ''Invalid recipient id'', d), [])
      else
        case contentError req of
          Some e \<Rightarrow> ((BadRequest e, d), [])
        | None \<Rightarrow>
          (case messageTextOf (sm_text req) of
             None \<Rightarrow> ((ServerError, d), [])
           | Some messageText \<Rightarrow>
             (case replyToDataOf isValid (sm_replyTo req) of
                None \<Rightarrow> ((ServerError, d), [])
              | Some replyToData \<Rightarrow>
                  let userId = the (sm_userId req);
                      recipientId = sm_recipientId req;
                      mType = messageTypeOf req;
                      previewText = previewTextOf mType messageText;
                      (conversation, d1) =
                        (case findConversation d userId recipientId of
                           Some c \<Rightarrow> (c, d)
                         | None \<Rightarrow>
                             createConversation now newConvId d userId recipientId previewText
                               Map.empty)
                  in case storeMessage now newMsgId d1 conversation userId recipientId mType
                            messageText replyToData req of
                       (Created messagePayload, d2) \<Rightarrow>
                         let sender = find (\<lambda>u. u_id u = userId) (users d2);
                             senderName = (case sender of None \<Rightarrow> None | Some u \<Rightarrow> u_name u);
                             (pushed, d3) =
                               sendNewMessageNotification sv now d2 recipientId userId senderName
                                 previewText (c_id conversation)
                         in ((Created messagePayload, d3),
                             emitToUser (ioReady sv) recipientId ''new_message'' messagePayload
                               userId)
                     | (r, d2) \<Rightarrow> ((r, d2), []))))"

section \<open>markAsRead\<close>

record read_req =
  mr_userId :: "string option"
  mr_conversationId :: string

definition markAsRead ::
  "(string \<Rightarrow> bool) \<Rightarrow> nat \<Rightarrow> db \<Rightarrow> read_req \<Rightarrow> unit response \<times> db" where
  "markAsRead isValid now d req =
     (if \<not> validUser isValid (mr_userId req) then (Unauthorized, d)
      else if \<not> validId isValid (mr_conversationId req)
      then (BadRequest ''Invalid conversation id'', d)
      else
        let userId = the (mr_userId req);
            convId = mr_conversationId req;
            d' = d\<lparr>messages :=
                    map (\<lambda>m. if conversationId m = convId \<and> receiverId m = userId \<and> isRead m = False
                              then m\<lparr>isRead := True, readAt := Some now\<rparr> else m)
                      (messages d)\<rparr>;
            d'' = d'\<lparr>conversations :=
                     updateFirst (\<lambda>c. c_id c = convId)
                       (\<lambda>c. c\<lparr>unreadCount := (unreadCount c)(userId \<mapsto> 0)\<rparr>)
                       (conversations d')\<rparr>
        in (Ok (), d''))"

section \<open>deleteConversations\<close>

text \<open>\<open>dc_conversationIds\<close> is \<open>None\<close> when the body field is missing or not an array.\<close>

record delete_req =
  dc_userId :: "string option"
  dc_conversationIds :: "string list option"

text \<open>The loop that collects \<open>validConversationIds\<close>.\<close>

fun collectValid :: "(string \<Rightarrow> bool) \<Rightarrow> db \<Rightarrow> oid \<Rightarrow> string list \<Rightarrow> oid list" where
  "collectValid isValid d userId [] = []"
| "collectValid isValid d userId (convId # rest) =
     (if \<not> isValid convId then collectValid isValid d userId rest
      else
        case find (\<lambda>c. c_id c = convId \<and> userId \<in> set (participants c)) (conversations d) of
          Some conversation \<Rightarrow> c_id conversation # collectValid isValid d userId rest
        | None \<Rightarrow> collectValid isValid d userId rest)"

definition deleteConversations ::
  "(string \<Rightarrow> bool) \<Rightarrow> db \<Rightarrow> delete_req \<Rightarrow> nat response \<times> db" where
  "deleteConversations isValid d req =
     (if \<not> validUser isValid (dc_userId req) then (Unauthorized, d)
      else
        case dc_conversationIds req of
          None \<Rightarrow> (BadRequest ''No conversation IDs provided'', d)
        | Some conversationIds \<Rightarrow>
            if length conversationIds = 0 then (BadRequest ''No conversation IDs provided'', d)
            else
              let validConversationIds =
                    collectValid isValid d (the (dc_userId req)) conversationIds
              in if length validConversationIds = 0
                 then (NotFound ''No valid conversations found'', d)
                 else
                   (Ok (length validConversationIds),
                    d\<lparr>messages :=
                        filter (\<lambda>m. conversationId m \<notin> set validConversationIds) (messages d),
                      conversations :=
                        filter (\<lambda>c. c_id c \<notin> set validConversationIds) (conversations d)\<rparr>))"

section \<open>getConversations\<close>

record other_user =
  ou_id :: oid
  ou_name :: "jstring option"
  ou_age :: "nat option"
  ou_photo :: "string option"
  ou_city :: "jstring option"
  ou_isOnline :: bool
  ou_lastSeen :: "nat option"

record conversation_item =
  ci_id :: oid
  ci_otherUser :: "other_user option"
  ci_lastMessage :: last_message
  ci_unreadCount :: nat
  ci_updatedAt :: nat

text \<open>
  \<open>getPhotoUrl\<close> of the first photo: \<open>null\<close> without a key or when signing fails. The
  signer of the object store is the parameter \<open>sign\<close>.
\<close>

definition photoUrlOf :: "(string \<Rightarrow> string option) \<Rightarrow> user \<Rightarrow> string option" where
  "photoUrlOf sign u = (if present (u_photoKey u) then sign (the (u_photoKey u)) else None)"

text \<open>The other participant: the first one that is not the caller, and its profile.\<close>

definition otherUserOf :: "db \<Rightarrow> conversation \<Rightarrow> string \<Rightarrow> user option" where
  "otherUserOf d conv userId =
     (case find (\<lambda>p. p \<noteq> userId) (participants conv) of
        None \<Rightarrow> None
      | Some otherParticipantId \<Rightarrow> find (\<lambda>u. u_id u = otherParticipantId) (users d))"

definition itemOf ::
  "(string \<Rightarrow> string option) \<Rightarrow> conversation \<Rightarrow> user option \<Rightarrow> jstring option \<Rightarrow> nat
     \<Rightarrow> conversation_item" where
  "itemOf sign conv otherUser city unread =
     \<lparr>ci_id = c_id conv,
      ci_otherUser =
        (case otherUser of
           None \<Rightarrow> None
         | Some u \<Rightarrow>
             Some \<lparr>ou_id = u_id u, ou_name = u_name u, ou_age = u_age u,
                   ou_photo = photoUrlOf sign u, ou_city = city,
                   ou_isOnline = u_isOnline u, ou_lastSeen = u_lastSeen u\<rparr>),
      ci_lastMessage = lastMessage conv,
      ci_unreadCount = unread,
      ci_updatedAt = c_updatedAt conv\<rparr>"

text \<open>
  In \<open>src/controllers/chatController.js\<close> the count is read as
  \<open>conv.unreadCount?.get?.(userId.toString()) || 0\<close>. The conversations come from a
  \<open>.lean()\<close> query, where the stored map is a plain object: \<open>get\<close> is then the entry
  under the key "get". Without one the optional call yields \<open>undefined\<close> and the count is
  0; with one, calling a number throws a TypeError (\<open>None\<close>).
\<close>

definition unreadViaGet :: "conversation \<Rightarrow> string \<Rightarrow> nat option" where
  "unreadViaGet conv key = (case unreadCount conv ''get'' of None \<Rightarrow> Some 0 | Some n \<Rightarrow> None)"

definition enrich ::
  "(string \<Rightarrow> string option) \<Rightarrow> db \<Rightarrow> string \<Rightarrow> conversation \<Rightarrow> conversation_item option" where
  "enrich sign d userId conv =
     (let otherUser = otherUserOf d conv userId;
          city = (case otherUser of
                    None \<Rightarrow> None
                  | Some u \<Rightarrow> if present (u_city u) then u_city u else None)
      in case unreadViaGet conv userId of
           None \<Rightarrow> None
         | Some unread \<Rightarrow> Some (itemOf sign conv otherUser city unread))"

definition getConversations ::
  "(string \<Rightarrow> bool) \<Rightarrow> (string \<Rightarrow> string option) \<Rightarrow> db \<Rightarrow> string option
     \<Rightarrow> conversation_item list response" where
  "getConversations isValid sign d userId =
     (if \<not> validUser isValid userId then Unauthorized
      else
        let convs = sortDesc c_updatedAt
                      (filter (\<lambda>c. the userId \<in> set (participants c)) (conversations d))
        in case those (map (enrich sign d (the userId)) convs) of
             None \<Rightarrow> ServerError
           | Some enrichedConversations \<Rightarrow> Ok enrichedConversations)"

text \<open>
  The revised controller (\<open>src/unnamed/part_001\<close>) reads the plain object by key,
  \<open>conv.unreadCount?.[userId.toString()] || 0\<close>, and falls back from \<open>city\<close> to
  \<open>userLocation\<close>.
\<close>

definition unreadByKey :: "conversation \<Rightarrow> string \<Rightarrow> nat" where
  "unreadByKey conv key = (case unreadCount conv key of None \<Rightarrow> 0 | Some n \<Rightarrow> n)"

definition enrich_part001 ::
  "(string \<Rightarrow> string option) \<Rightarrow> db \<Rightarrow> string \<Rightarrow> conversation \<Rightarrow> conversation_item" where
  "enrich_part001 sign d userId conv =
     (let otherUser = otherUserOf d conv userId;
          city = (case otherUser of
                    None \<Rightarrow> None
                  | Some u \<Rightarrow> if present (u_city u) then u_city u
                             else if present (u_userLocation u) then u_userLocation u
                             else None)
      in itemOf sign conv otherUser city (unreadByKey conv userId))"

definition getConversations_part001 ::
  "(string \<Rightarrow> bool) \<Rightarrow> (string \<Rightarrow> string option) \<Rightarrow> db \<Rightarrow> string option
     \<Rightarrow> conversation_item list response" where
  "getConversations_part001 isValid sign d userId =
     (if \<not> validUser isValid userId then Unauthorized
      else
        let convs = sortDesc c_updatedAt
                      (filter (\<lambda>c. the userId \<in> set (participants c)) (conversations d))
        in Ok (map (enrich_part001 sign d (the userId)) convs))"

section \<open>Example data\<close>

text \<open>
  Concrete stores and requests on which the theorems below are instantiated. The
  example driver accepts the 24-character ids.
\<close>

definition exValid :: "string \<Rightarrow> bool" where
  "exValid s = (length s = 24)"

definition idA :: oid where "idA = ''aaaaaaaaaaaaaaaaaaaaaaaa''"

definition idB :: oid where "idB = ''bbbbbbbbbbbbbbbbbbbbbbbb''"

definition idC :: oid where "idC = ''cccccccccccccccccccccccc''"

definition idConv1 :: oid where "idConv1 = ''111111111111111111111111''"

definition idConv2 :: oid where "idConv2 = ''222222222222222222222222''"

definition idMsg1 :: oid where "idMsg1 = ''555555555555555555555555''"

definition exConvAB :: conversation where
  "exConvAB =
     \<lparr>c_id = idConv1, participants = [idA, idB],
      lastMessage = \<lparr>lm_text = ascii ''yo'', lm_senderId = Some idA, lm_createdAt = 100\<rparr>,
      unreadCount = [idB \<mapsto> 3], c_createdAt = 50, c_updatedAt = 100\<rparr>"

definition exConvBC :: conversation where
  "exConvBC =
     \<lparr>c_id = idConv2, participants = [idB, idC],
      lastMessage = \<lparr>lm_text = ascii ''ok'', lm_senderId = Some idB, lm_createdAt = 90\<rparr>,
      unreadCount = [idC \<mapsto> 1], c_createdAt = 60, c_updatedAt = 90\<rparr>"

definition exMsg :: "nat \<Rightarrow> message" where
  "exMsg i =
     \<lparr>m_id = replicate 22 (CHR ''0'') @ [char_of (48 + i div 10), char_of (48 + i mod 10)],
      conversationId = idConv1, senderId = idA, receiverId = idB,
      messageType = ''text'', m_text = ascii ''yo'', voiceUrl = None, voiceDuration = None,
      replyTo = None, isRead = False, readAt = None, m_createdAt = 1000 + i\<rparr>"

definition exMsgBC :: message where
  "exMsgBC =
     \<lparr>m_id = ''666666666666666666666666'', conversationId = idConv2, senderId = idB,
      receiverId = idC, messageType = ''text'', m_text = ascii ''ok'', voiceUrl = None,
      voiceDuration = None, replyTo = None, isRead = False, readAt = None, m_createdAt = 90\<rparr>"

text \<open>A store with one conversation between A and B holding \<open>n\<close> messages.\<close>

definition exDbN :: "nat \<Rightarrow> db" where
  "exDbN n =
     \<lparr>conversations = [exConvAB], messages = map exMsg (rev [0..<n]), users = [],
      deviceTokens = []\<rparr>"

definition exToken :: "string \<Rightarrow> deviceToken" where
  "exToken tok =
     \<lparr>t_userId = idB, fcmToken = tok, platform = ''android'', deviceId = None,
      isActive = True, t_createdAt = 10, t_updatedAt = 10\<rparr>"

text \<open>The empty store.\<close>

definition emptyDb :: db where
  "emptyDb = \<lparr>conversations = [], messages = [], users = [], deviceTokens = []\<rparr>"

definition exDb2 :: db where
  "exDb2 =
     \<lparr>conversations = [exConvAB, exConvBC], messages = [exMsg 0, exMsg 1, exMsgBC],
      users = [], deviceTokens = [exToken ''tok1'', exToken ''tok2'', exToken ''tok3'']\<rparr>"

definition exPageReq :: "int option \<Rightarrow> int option \<Rightarrow> messages_req" where
  "exPageReq p l = \<lparr>gm_userId = Some idA, gm_recipientId = idB, gm_page = p, gm_limit = l\<rparr>"

definition exSendReq :: "string \<Rightarrow> send_req" where
  "exSendReq t =
     \<lparr>sm_userId = Some idA, sm_recipientId = idB, sm_text = JStr (ascii t),
      sm_replyTo = None, sm_messageType = Some ''text'', sm_voiceUrl = None,
      sm_voiceDuration = None\<rparr>"

definition exReadReq :: "oid \<Rightarrow> oid \<Rightarrow> read_req" where
  "exReadReq u c = \<lparr>mr_userId = Some u, mr_conversationId = c\<rparr>"

definition exDeleteReq :: "string list \<Rightarrow> delete_req" where
  "exDeleteReq ids = \<lparr>dc_userId = Some idA, dc_conversationIds = Some ids\<rparr>"

definition exNotification :: notification where
  "exNotification = \<lparr>n_title = ascii ''hello'', n_body = ascii ''there'', n_data = []\<rparr>"

text \<open>
  A provider that delivers to the first token, reports the second as no longer
  registered and fails on the third for a passing reason; and one that is down.
\<close>

definition exServices :: services where
  "exServices =
     \<lparr>firebaseInitialized = True,
      provider = (\<lambda>toks n. Responds [Delivered,
                     Failed (Some ''messaging/registration-token-not-registered''),
                     Failed (Some ''messaging/internal-error'')]),
      ioReady = True\<rparr>"

definition exServicesDown :: services where
  "exServicesDown =
     \<lparr>firebaseInitialized = True, provider = (\<lambda>toks n. Throws ''unavailable''),
      ioReady = False\<rparr>"

definition exSign :: "string \<Rightarrow> string option" where
  "exSign key = Some (''https://bucket/'' @ key)"

section \<open>Auxiliary facts\<close>

lemma find_Some_conv: "find P xs = Some x \<Longrightarrow> P x \<and> x \<in> set xs"
  by (induction xs) (auto split: if_splits)

lemma updateFirst_append_fresh:
  "\<forall>x\<in>set xs. \<not> P x \<Longrightarrow> P y \<Longrightarrow> updateFirst P f (xs @ [y]) = xs @ [f y]"
  by (induction xs) auto

lemma updateFirst_idem:
  assumes "\<And>x. P x \<Longrightarrow> P (f x) \<and> f (f x) = f x"
  shows "updateFirst P f (updateFirst P f xs) = updateFirst P f xs"
  using assms by (induction xs) auto

lemma length_updateFirst: "length (updateFirst P f xs) = length xs"
  by (induction xs) auto

lemma find_updateFirst:
  assumes "\<And>x. P x \<Longrightarrow> P (f x)"
  shows "find P (updateFirst P f xs) = map_option f (find P xs)"
  using assms by (induction xs) auto

lemma updateFirst_none: "find P xs = None \<Longrightarrow> updateFirst P f xs = xs"
  by (induction xs) (auto split: if_splits)

lemma filter_updateFirst_other:
  assumes "\<And>x. P x \<Longrightarrow> P (f x)"
  shows "filter (\<lambda>x. \<not> P x) (updateFirst P f xs) = filter (\<lambda>x. \<not> P x) xs"
  using assms by (induction xs) auto

lemma map_updateFirst_same:
  assumes "\<And>x. k (g x) = k x"
  shows "map k (updateFirst P g xs) = map k xs"
  using assms by (induction xs) auto

text \<open>\<open>trim\<close> leaves nothing to trim: the schema's setter does not change a trimmed text.\<close>

lemma dropWhile_rev_prefix_head:
  assumes "t = [] \<or> \<not> P (hd t)"
  shows "dropWhile P (rev (dropWhile P (rev t))) = rev (dropWhile P (rev t))"
proof (cases "rev (dropWhile P (rev t)) = []")
  case True
  show ?thesis unfolding True by simp
next
  case False
  have "t = rev (dropWhile P (rev t)) @ rev (takeWhile P (rev t))"
    by (metis rev_append rev_rev_ident takeWhile_dropWhile_id)
  then have "hd (rev (dropWhile P (rev t))) = hd t"
    using False by (metis hd_append2)
  moreover have "t \<noteq> []" using False by auto
  ultimately have "\<not> P (hd (rev (dropWhile P (rev t))))" using assms by simp
  then show ?thesis using False by (simp add: dropWhile_eq_self_iff)
qed

lemma trim_trim: "trim (trim s) = trim s"
proof -
  let ?t = "dropWhile isWhiteSpace s"
  have "?t = [] \<or> \<not> isWhiteSpace (hd ?t)"
    by (metis hd_dropWhile)
  then have "dropWhile isWhiteSpace (trim s) = trim s"
    unfolding trim_def by (rule dropWhile_rev_prefix_head)
  then show ?thesis
    by (simp add: trim_def)
qed

lemma trim_hi: "trim (ascii ''  hi '') = ascii ''hi''"
  by (simp add: trim_def ascii_def isWhiteSpace_def)

lemma trim_blank: "trim (ascii ''   '') = []"
  by (simp add: trim_def ascii_def isWhiteSpace_def)

lemmas ex_ids = idA_def idB_def idC_def idConv1_def idConv2_def idMsg1_def exValid_def

lemma ex_valid_ids:
  "validUser exValid (Some idA)" "validUser exValid (Some idB)" "validUser exValid (Some idC)"
  "validId exValid idA" "validId exValid idB" "validId exValid idConv1"
  "validId exValid idConv2" "validId exValid idMsg1"
  by (simp_all add: validUser_def validId_def ex_ids)

text \<open>The push path touches device tokens only.\<close>

lemma sendPushToUser_keeps:
  "conversations (snd (sendPushToUser sv now d userId n)) = conversations d"
  "messages (snd (sendPushToUser sv now d userId n)) = messages d"
  "users (snd (sendPushToUser sv now d userId n)) = users d"
  by (auto simp: sendPushToUser_def sendPushBody_def Let_def split: provider_outcome.splits)

lemma sendNewMessageNotification_keeps:
  "conversations (snd (sendNewMessageNotification sv now d rcp sid sname txt cid)) =
     conversations d"
  "messages (snd (sendNewMessageNotification sv now d rcp sid sname txt cid)) = messages d"
  by (simp_all add: sendNewMessageNotification_def sendPushToUser_keeps)

section \<open>sendMessage: the first message of a pair\<close>

text \<open>
  The revised controller (\<open>src/unnamed/part_001\<close>) creates the conversation with an empty
  unread map, so the first message leaves the recipient's entry at 1.
\<close>

lemma sendMessage_part001_first_message:
  assumes u: "validUser isValid (sm_userId req)"
      and r: "validId isValid (sm_recipientId req)"
      and nc: "findConversation d (the (sm_userId req)) (sm_recipientId req) = None"
      and ty: "messageTypeOf req = ''text''"
      and tx: "sm_text req = JStr s" and ne: "trim s \<noteq> []"
      and rp: "sm_replyTo req = None"
      and fresh: "newConvId \<notin> c_id ` set (conversations d)"
  shows "\<exists>p m c.
            fst (fst (sendMessage_part001 isValid sv now newConvId newMsgId d req)) = Created p
          \<and> messages (snd (fst (sendMessage_part001 isValid sv now newConvId newMsgId d req))) =
              messages d @ [m]
          \<and> conversations (snd (fst (sendMessage_part001 isValid sv now newConvId newMsgId d req))) =
              conversations d @ [c]
          \<and> p_text p = trim s \<and> m_text m = trim s \<and> isRead m = False
          \<and> receiverId m = sm_recipientId req
          \<and> lm_text (lastMessage c) = trim s
          \<and> unreadCount c (sm_recipientId req) = Some 1"
proof -
  have ce: "contentError req = None"
    using ty tx ne by (auto simp: contentError_def Let_def trim_def)
  have mt: "messageTextOf (sm_text req) = Some (trim s)"
    using tx ne by (auto simp: messageTextOf_def trim_def)
  have rd: "replyToDataOf isValid (sm_replyTo req) = Some None"
    using rp by (simp add: replyToDataOf_def)
  have fr: "\<forall>x\<in>set (conversations d). \<not> c_id x = newConvId"
    using fresh by auto
  show ?thesis
    using u r nc ty
    by (simp add: sendMessage_part001_def ce mt rd createConversation_def Let_def storeMessage_def
        messageTypes_def newMessage_def payloadOf_def previewTextOf_def currentUnreadOf_def
        trim_trim updateFirst_append_fresh[OF fr] split_beta sendNewMessageNotification_keeps)
qed

text \<open>
  C1. For a sender A and a recipient B with no prior conversation, \<open>sendMessage\<close> with
  type text and text \<open>'  hi '\<close> should store the text \<open>'hi'\<close>, set the preview to \<open>'hi'\<close> and
  take B's unread entry from 0 to 1. The text and the preview are as claimed. The
  counter is not, in \<open>src/controllers/chatController.js\<close>: the conversation is created
  with B's entry already at 1, and the update that follows reads that 1 and writes 2.
  For every first text message of a pair (any store, any non-blank text) the entry
  ends at 2.
\<close>

theorem sendMessage_first_message_unread_two:
  assumes u: "validUser isValid (sm_userId req)"
      and r: "validId isValid (sm_recipientId req)"
      and nc: "findConversation d (the (sm_userId req)) (sm_recipientId req) = None"
      and ty: "messageTypeOf req = ''text''"
      and tx: "sm_text req = JStr s" and ne: "trim s \<noteq> []"
      and rp: "sm_replyTo req = None"
      and fresh: "newConvId \<notin> c_id ` set (conversations d)"
  shows "\<exists>p m c.
            fst (sendMessage isValid now newConvId newMsgId d req) = Created p
          \<and> messages (snd (sendMessage isValid now newConvId newMsgId d req)) = messages d @ [m]
          \<and> conversations (snd (sendMessage isValid now newConvId newMsgId d req)) =
              conversations d @ [c]
          \<and> p_text p = trim s \<and> m_text m = trim s \<and> isRead m = False
          \<and> receiverId m = sm_recipientId req
          \<and> lm_text (lastMessage c) = trim s
          \<and> unreadCount c (sm_recipientId req) = Some 2"
proof -
  have ce: "contentError req = None"
    using ty tx ne by (auto simp: contentError_def Let_def trim_def)
  have mt: "messageTextOf (sm_text req) = Some (trim s)"
    using tx ne by (auto simp: messageTextOf_def trim_def)
  have rd: "replyToDataOf isValid (sm_replyTo req) = Some None"
    using rp by (simp add: replyToDataOf_def)
  have fr: "\<forall>x\<in>set (conversations d). \<not> c_id x = newConvId"
    using fresh by auto
  show ?thesis
    using u r nc ty
    by (simp add: sendMessage_def ce mt rd createConversation_def Let_def storeMessage_def
        messageTypes_def newMessage_def payloadOf_def previewTextOf_def currentUnreadOf_def
        trim_trim updateFirst_append_fresh[OF fr])
qed

theorem sendMessage_first_message_unread_two_witness:
  "\<exists>p m c. fst (sendMessage exValid 2000 idConv1 idMsg1 emptyDb (exSendReq ''  hi '')) = Created p
     \<and> messages (snd (sendMessage exValid 2000 idConv1 idMsg1 emptyDb (exSendReq ''  hi ''))) = [m]
     \<and> conversations (snd (sendMessage exValid 2000 idConv1 idMsg1 emptyDb (exSendReq ''  hi ''))) = [c]
     \<and> p_text p = ascii ''hi'' \<and> m_text m = ascii ''hi''
     \<and> lm_text (lastMessage c) = ascii ''hi''
     \<and> unreadCount c idB = Some 2"
proof -
  have "\<exists>p m c.
            fst (sendMessage exValid 2000 idConv1 idMsg1 emptyDb (exSendReq ''  hi '')) = Created p
          \<and> messages (snd (sendMessage exValid 2000 idConv1 idMsg1 emptyDb (exSendReq ''  hi ''))) =
              messages emptyDb @ [m]
          \<and> conversations (snd (sendMessage exValid 2000 idConv1 idMsg1 emptyDb (exSendReq ''  hi ''))) =
              conversations emptyDb @ [c]
          \<and> p_text p = trim (ascii ''  hi '') \<and> m_text m = trim (ascii ''  hi '')
          \<and> isRead m = False
          \<and> receiverId m = sm_recipientId (exSendReq ''  hi '')
          \<and> lm_text (lastMessage c) = trim (ascii ''  hi '')
          \<and> unreadCount c (sm_recipientId (exSendReq ''  hi '')) = Some 2"
    by (rule sendMessage_first_message_unread_two[where s = "ascii ''  hi ''"])
       (simp_all add: exSendReq_def emptyDb_def ex_valid_ids findConversation_def
          messageTypeOf_def trim_hi, simp add: ascii_def)
  moreover have "messages emptyDb = []" "conversations emptyDb = []"
      "sm_recipientId (exSendReq ''  hi '') = idB"
    by (simp_all add: emptyDb_def exSendReq_def)
  ultimately show ?thesis
    by (auto simp: trim_hi)
qed

section \<open>getMessages: pagination\<close>

lemma ex_page_conv:
  "findConversation (exDbN n) (the (gm_userId (exPageReq p l))) (gm_recipientId (exPageReq p l)) =
     Some exConvAB"
  by (simp add: findConversation_def exDbN_def exConvAB_def exPageReq_def idA_def idB_def)

lemma ex_page_stored:
  "length (filter (\<lambda>m. conversationId m = c_id exConvAB) (messages (exDbN n))) = n"
  by (simp add: exDbN_def exMsg_def exConvAB_def filter_map o_def)

text \<open>
  C3. With exactly 31 stored messages in the conversation, \<open>limit=30\<close> and \<open>page=1\<close>,
  \<open>getMessages\<close> answers \<open>hasMore=true\<close> with exactly 30 messages, oldest first: the
  stored messages in ascending \<open>createdAt\<close> order without the oldest one. With exactly
  30 stored messages it answers \<open>hasMore=false\<close> with all of them, oldest first. The
  definition of \<open>getMessages\<close> is the algorithm the claim names: newest first, skip,
  \<open>limit + 1\<close> records, trimmed to \<open>limit\<close>, reversed.
\<close>

theorem getMessages_pagination:
  assumes u: "validUser isValid (gm_userId req)"
      and r: "validId isValid (gm_recipientId req)"
      and c: "findConversation d (the (gm_userId req)) (gm_recipientId req) = Some c"
      and l: "gm_limit req = Some 30" and p: "gm_page req = Some 1"
  shows "(length (filter (\<lambda>m. conversationId m = c_id c) (messages d)) = 31 \<longrightarrow>
          (\<exists>res. getMessages isValid d req = Ok res \<and> res_hasMore res \<and>
             length (res_messages res) = 30 \<and>
             sorted (map m_createdAt (res_messages res)) \<and>
             res_messages res =
               drop 1 (sort_key m_createdAt
                         (filter (\<lambda>m. conversationId m = c_id c) (messages d)))))
       \<and> (length (filter (\<lambda>m. conversationId m = c_id c) (messages d)) = 30 \<longrightarrow>
          (\<exists>res. getMessages isValid d req = Ok res \<and> \<not> res_hasMore res \<and>
             length (res_messages res) = 30 \<and>
             sorted (map m_createdAt (res_messages res)) \<and>
             res_messages res =
               sort_key m_createdAt (filter (\<lambda>m. conversationId m = c_id c) (messages d))))"
proof -
  let ?S = "sort_key m_createdAt (filter (\<lambda>m. conversationId m = c_id c) (messages d))"
  have pg: "pageOf req = 1" using p by (simp add: pageOf_def orDefault_def)
  have lm: "limitOf req = 30" using l by (simp add: limitOf_def orDefault_def)
  have srt: "sorted (map m_createdAt (drop 1 ?S))"
    using sorted_sort_key[of m_createdAt] by (metis drop_map sorted_wrt_drop)
  show ?thesis
    using u r c srt
    by (auto simp: getMessages_def Let_def pg lm sortDesc_def rev_take)
qed

theorem getMessages_pagination_witness:
  "(\<exists>res. getMessages exValid (exDbN 31) (exPageReq (Some 1) (Some 30)) = Ok res \<and>
          res_hasMore res \<and> length (res_messages res) = 30 \<and>
          sorted (map m_createdAt (res_messages res)))
 \<and> (\<exists>res. getMessages exValid (exDbN 30) (exPageReq (Some 1) (Some 30)) = Ok res \<and>
          \<not> res_hasMore res \<and> length (res_messages res) = 30)"
proof -
  have u: "validUser exValid (gm_userId (exPageReq (Some 1) (Some 30)))"
    and r: "validId exValid (gm_recipientId (exPageReq (Some 1) (Some 30)))"
    and l: "gm_limit (exPageReq (Some 1) (Some 30)) = Some 30"
    and p: "gm_page (exPageReq (Some 1) (Some 30)) = Some 1"
    by (simp_all add: exPageReq_def ex_valid_ids)
  from getMessages_pagination[OF u r ex_page_conv l p, of 31] ex_page_stored[of 31]
  have a: "\<exists>res. getMessages exValid (exDbN 31) (exPageReq (Some 1) (Some 30)) = Ok res \<and>
          res_hasMore res \<and> length (res_messages res) = 30 \<and>
          sorted (map m_createdAt (res_messages res))"
    by auto
  from getMessages_pagination[OF u r ex_page_conv l p, of 30] ex_page_stored[of 30]
  have b: "\<exists>res. getMessages exValid (exDbN 30) (exPageReq (Some 1) (Some 30)) = Ok res \<and>
          \<not> res_hasMore res \<and> length (res_messages res) = 30"
    by auto
  from a b show ?thesis by blast
qed

section \<open>sendMessage: content validation\<close>

lemma contentError_iff:
  "contentError req \<noteq> None \<longleftrightarrow>
     (messageTypeOf req = ''text'' \<and> (case sm_text req of JStr s \<Rightarrow> trim s = [] | _ \<Rightarrow> True)
      \<or> messageTypeOf req = ''voice'' \<and> (sm_voiceUrl req = None \<or> sm_voiceUrl req = Some []))"
  by (auto simp: contentError_def Let_def present_def trim_def split: jsval.splits option.splits)

lemma sendMessage_badRequest_iff:
  assumes "validUser isValid (sm_userId req)" "validId isValid (sm_recipientId req)"
  shows "(\<exists>msg. fst (sendMessage isValid now newConvId newMsgId d req) = BadRequest msg)
           \<longleftrightarrow> contentError req \<noteq> None"
  using assms
  by (auto simp: sendMessage_def Let_def storeMessage_def split_beta split: option.splits)

lemma sendMessage_part001_badRequest_iff:
  assumes "validUser isValid (sm_userId req)" "validId isValid (sm_recipientId req)"
  shows "(\<exists>msg. fst (fst (sendMessage_part001 isValid sv now newConvId newMsgId d req)) =
                 BadRequest msg)
           \<longleftrightarrow> contentError req \<noteq> None"
  using assms
  by (auto simp: sendMessage_part001_def Let_def storeMessage_def split_beta
           split: option.splits)

text \<open>
  When the steps between the content check and the store throw, in terms of the request:
  \<open>text.trim()\<close> throws unless \<open>text\<close> is falsy or a string, and \<open>new ObjectId\<close> throws
  on a \<open>replyTo\<close> that has an id and a text but whose id, or whose sender id, the driver
  does not accept.
\<close>

lemma messageTextOf_defined:
  "messageTextOf t \<noteq> None \<longleftrightarrow>
     (case t of JUndefined \<Rightarrow> True | JNull \<Rightarrow> True | JBool b \<Rightarrow> \<not> b | JNum n \<Rightarrow> n = 0
              | JStr s \<Rightarrow> True | JObject \<Rightarrow> False)"
  by (cases t) (auto simp: messageTextOf_def)

lemma replyToDataOf_defined:
  "replyToDataOf isValid rt \<noteq> None \<longleftrightarrow>
     (case rt of
        None \<Rightarrow> True
      | Some q \<Rightarrow>
          rq_id q = None \<or> rq_id q = Some [] \<or> rq_text q = None \<or> rq_text q = Some [] \<or>
          isValid (the (rq_id q)) \<and>
          (rq_senderId q = None \<or> rq_senderId q = Some [] \<or> isValid (the (rq_senderId q))))"
  by (auto simp: replyToDataOf_def present_def split: option.splits)

text \<open>
  What becomes of a message whose type is not text and whose \<open>text\<close> is a truthy value
  that is not a string: it passes the content check, and \<open>text.trim()\<close> then throws, which
  the handler answers with 500.
\<close>

lemma sendMessage_nonstring_text_500:
  assumes "validUser isValid (sm_userId req)" "validId isValid (sm_recipientId req)"
    "messageTypeOf req = ''image''" "sm_text req = JNum 123"
  shows "sendMessage isValid now newConvId newMsgId d req = (ServerError, d)"
  using assms by (simp add: sendMessage_def contentError_def messageTextOf_def)

text \<open>
  C4, as amended. For every request with valid sender and recipient ids, \<open>sendMessage\<close>
  (in both revisions of the controller) answers 400 exactly when the message type is
  text and the text is not a string or is a string that is empty after trimming (a
  missing text is not a string), or the type is voice and the voice URL is missing
  (absent or empty). The type image has no branch in the check: it is never answered
  400, whatever the content, and it is accepted (201) whenever its \<open>text\<close> is absent,
  falsy or a string, and its \<open>replyTo\<close>, if it has one with an id and a text, carries ids
  the driver accepts. (The claim as stated, accepted regardless of content, fails for an
  image whose \<open>text\<close> is the number 123 and for one whose \<open>replyTo\<close> id is malformed: both
  are answered 500. What the handler answers there is not part of this statement.)
\<close>

theorem sendMessage_invalidInput_iff:
  assumes u: "validUser isValid (sm_userId req)" and r: "validId isValid (sm_recipientId req)"
  shows "((\<exists>msg. fst (sendMessage isValid now newConvId newMsgId d req) = BadRequest msg) \<longleftrightarrow>
            (messageTypeOf req = ''text'' \<and>
               (case sm_text req of JStr s \<Rightarrow> trim s = [] | _ \<Rightarrow> True)
             \<or> messageTypeOf req = ''voice'' \<and>
               (sm_voiceUrl req = None \<or> sm_voiceUrl req = Some [])))
       \<and> ((\<exists>msg. fst (fst (sendMessage_part001 isValid sv now newConvId newMsgId d req)) =
                   BadRequest msg) \<longleftrightarrow>
            (messageTypeOf req = ''text'' \<and>
               (case sm_text req of JStr s \<Rightarrow> trim s = [] | _ \<Rightarrow> True)
             \<or> messageTypeOf req = ''voice'' \<and>
               (sm_voiceUrl req = None \<or> sm_voiceUrl req = Some [])))
       \<and> (messageTypeOf req = ''image'' \<longrightarrow>
            (\<forall>msg. fst (sendMessage isValid now newConvId newMsgId d req) \<noteq> BadRequest msg) \<and>
            (\<forall>msg. fst (fst (sendMessage_part001 isValid sv now newConvId newMsgId d req)) \<noteq>
                    BadRequest msg) \<and>
            ((case sm_text req of
                JUndefined \<Rightarrow> True | JNull \<Rightarrow> True | JBool b \<Rightarrow> \<not> b | JNum n \<Rightarrow> n = 0
              | JStr s \<Rightarrow> True | JObject \<Rightarrow> False) \<and>
             (case sm_replyTo req of
                None \<Rightarrow> True
              | Some q \<Rightarrow>
                  rq_id q = None \<or> rq_id q = Some [] \<or> rq_text q = None \<or> rq_text q = Some [] \<or>
                  isValid (the (rq_id q)) \<and>
                  (rq_senderId q = None \<or> rq_senderId q = Some [] \<or>
                   isValid (the (rq_senderId q))))
               \<longrightarrow> (\<exists>p. fst (sendMessage isValid now newConvId newMsgId d req) = Created p \<and>
                        p_messageType p = ''image'') \<and>
                   (\<exists>p. fst (fst (sendMessage_part001 isValid sv now newConvId newMsgId d req)) =
                        Created p \<and> p_messageType p = ''image'')))"
proof -
  have img: "messageTypeOf req = ''image'' \<Longrightarrow> contentError req = None"
    by (simp add: contentError_def)
  have a: "(\<exists>msg. fst (sendMessage isValid now newConvId newMsgId d req) = BadRequest msg)
           \<longleftrightarrow> contentError req \<noteq> None"
    by (rule sendMessage_badRequest_iff[OF u r])
  have b: "(\<exists>msg. fst (fst (sendMessage_part001 isValid sv now newConvId newMsgId d req)) =
                  BadRequest msg)
           \<longleftrightarrow> contentError req \<noteq> None"
    by (rule sendMessage_part001_badRequest_iff[OF u r])
  have c: "(\<exists>p. fst (sendMessage isValid now newConvId newMsgId d req) = Created p \<and>
                p_messageType p = ''image'') \<and>
           (\<exists>p. fst (fst (sendMessage_part001 isValid sv now newConvId newMsgId d req)) =
                Created p \<and> p_messageType p = ''image'')"
    if "messageTypeOf req = ''image''" "messageTextOf (sm_text req) \<noteq> None"
       "replyToDataOf isValid (sm_replyTo req) \<noteq> None"
    using u r that img
    by (auto simp: sendMessage_def sendMessage_part001_def Let_def storeMessage_def split_beta
          messageTypes_def payloadOf_def newMessage_def)
  have n: "messageTypeOf req = ''image'' \<Longrightarrow>
            (\<forall>msg. fst (sendMessage isValid now newConvId newMsgId d req) \<noteq> BadRequest msg) \<and>
            (\<forall>msg. fst (fst (sendMessage_part001 isValid sv now newConvId newMsgId d req)) \<noteq>
                    BadRequest msg)"
    using a b img by auto
  show ?thesis
    unfolding a b contentError_iff[symmetric]
      messageTextOf_defined[symmetric] replyToDataOf_defined[symmetric]
    using c n by blast
qed

theorem sendMessage_invalidInput_iff_witness:
  "(\<exists>msg. fst (sendMessage exValid 2000 idConv1 idMsg1 emptyDb (exSendReq ''   '')) =
          BadRequest msg)
 \<and> (\<exists>msg. fst (fst (sendMessage_part001 exValid exServices 2000 idConv1 idMsg1 emptyDb
                        (exSendReq ''   ''))) = BadRequest msg)
 \<and> (\<exists>msg. fst (sendMessage exValid 2000 idConv1 idMsg1 emptyDb
                 ((exSendReq ''hi'')\<lparr>sm_messageType := Some ''voice''\<rparr>)) = BadRequest msg)
 \<and> (\<forall>msg. fst (sendMessage exValid 2000 idConv1 idMsg1 emptyDb (exSendReq ''hi'')) \<noteq>
          BadRequest msg)
 \<and> (\<exists>p. fst (sendMessage exValid 2000 idConv1 idMsg1 emptyDb
               ((exSendReq ''   '')\<lparr>sm_messageType := Some ''image''\<rparr>)) = Created p)
 \<and> (\<exists>p. fst (sendMessage exValid 2000 idConv1 idMsg1 emptyDb
               ((exSendReq ''hi'')\<lparr>sm_messageType := Some ''image'', sm_text := JUndefined\<rparr>)) =
         Created p)
 \<and> (\<exists>p. fst (fst (sendMessage_part001 exValid exServices 2000 idConv1 idMsg1 emptyDb
               ((exSendReq ''hi'')\<lparr>sm_messageType := Some ''image'',
                  sm_replyTo := Some \<lparr>rq_id = Some idMsg1, rq_text = Some (ascii ''yo''),
                                      rq_senderId = Some idB\<rparr>\<rparr>))) = Created p)"
proof -
  have v: "validUser exValid (sm_userId ((exSendReq t)\<lparr>sm_messageType := m\<rparr>))"
      "validId exValid (sm_recipientId ((exSendReq t)\<lparr>sm_messageType := m\<rparr>))"
      "validUser exValid (sm_userId ((exSendReq t)\<lparr>sm_messageType := m, sm_text := x\<rparr>))"
      "validId exValid (sm_recipientId ((exSendReq t)\<lparr>sm_messageType := m, sm_text := x\<rparr>))"
      "validUser exValid (sm_userId ((exSendReq t)\<lparr>sm_messageType := m, sm_replyTo := q\<rparr>))"
      "validId exValid (sm_recipientId ((exSendReq t)\<lparr>sm_messageType := m, sm_replyTo := q\<rparr>))"
      "validUser exValid (sm_userId (exSendReq t))"
      "validId exValid (sm_recipientId (exSendReq t))" for t m x q
    by (simp_all add: exSendReq_def ex_valid_ids)
  have f: "messageTypeOf (exSendReq t) = ''text''"
      "sm_text (exSendReq t) = JStr (ascii t)"
      "messageTypeOf ((exSendReq t)\<lparr>sm_messageType := Some m\<rparr>) = m"
      "sm_text ((exSendReq t)\<lparr>sm_messageType := Some m\<rparr>) = JStr (ascii t)"
      "sm_voiceUrl ((exSendReq t)\<lparr>sm_messageType := Some m\<rparr>) = None"
      "sm_replyTo ((exSendReq t)\<lparr>sm_messageType := Some m\<rparr>) = None"
      "messageTypeOf ((exSendReq t)\<lparr>sm_messageType := Some m, sm_text := x\<rparr>) = m"
      "sm_text ((exSendReq t)\<lparr>sm_messageType := Some m, sm_text := x\<rparr>) = x"
      "sm_replyTo ((exSendReq t)\<lparr>sm_messageType := Some m, sm_text := x\<rparr>) = None"
      "messageTypeOf ((exSendReq t)\<lparr>sm_messageType := Some m, sm_replyTo := q\<rparr>) = m"
      "sm_text ((exSendReq t)\<lparr>sm_messageType := Some m, sm_replyTo := q\<rparr>) = JStr (ascii t)"
      "sm_replyTo ((exSendReq t)\<lparr>sm_messageType := Some m, sm_replyTo := q\<rparr>) = q"
      for t m x q
    by (simp_all add: exSendReq_def messageTypeOf_def)
  have th: "trim (ascii ''hi'') \<noteq> []"
    by (simp add: trim_def ascii_def isWhiteSpace_def)
  have ok: "exValid idMsg1" "exValid idB"
    by (simp_all add: ex_ids)
  from sendMessage_invalidInput_iff
         [where isValid = exValid and now = 2000 and newConvId = idConv1 and newMsgId = idMsg1
            and d = emptyDb and sv = exServices
            and req = "exSendReq ''   ''",
          OF v(7,8)]
  have a: "(\<exists>msg. fst (sendMessage exValid 2000 idConv1 idMsg1 emptyDb (exSendReq ''   '')) =
              BadRequest msg)
     \<and> (\<exists>msg. fst (fst (sendMessage_part001 exValid exServices 2000 idConv1 idMsg1 emptyDb
                        (exSendReq ''   ''))) = BadRequest msg)"
    by (simp add: f trim_blank)
  from sendMessage_invalidInput_iff
         [where isValid = exValid and now = 2000 and newConvId = idConv1 and newMsgId = idMsg1
            and d = emptyDb and sv = exServices
            and req = "(exSendReq ''hi'')\<lparr>sm_messageType := Some ''voice''\<rparr>",
          OF v(1,2)]
  have b: "\<exists>msg. fst (sendMessage exValid 2000 idConv1 idMsg1 emptyDb
                 ((exSendReq ''hi'')\<lparr>sm_messageType := Some ''voice''\<rparr>)) = BadRequest msg"
    by (simp add: f)
  from sendMessage_invalidInput_iff
         [where isValid = exValid and now = 2000 and newConvId = idConv1 and newMsgId = idMsg1
            and d = emptyDb and sv = exServices
            and req = "exSendReq ''hi''",
          OF v(7,8)]
  have c: "\<forall>msg. fst (sendMessage exValid 2000 idConv1 idMsg1 emptyDb (exSendReq ''hi'')) \<noteq>
             BadRequest msg"
    by (simp add: f th)
  from sendMessage_invalidInput_iff
         [where isValid = exValid and now = 2000 and newConvId = idConv1 and newMsgId = idMsg1
            and d = emptyDb and sv = exServices
            and req = "(exSendReq ''   '')\<lparr>sm_messageType := Some ''image''\<rparr>",
          OF v(1,2)]
  have e: "\<exists>p. fst (sendMessage exValid 2000 idConv1 idMsg1 emptyDb
               ((exSendReq ''   '')\<lparr>sm_messageType := Some ''image''\<rparr>)) = Created p"
    by (auto simp: f)
  from sendMessage_invalidInput_iff
         [where isValid = exValid and now = 2000 and newConvId = idConv1 and newMsgId = idMsg1
            and d = emptyDb and sv = exServices
            and req = "(exSendReq ''hi'')\<lparr>sm_messageType := Some ''image'', sm_text := JUndefined\<rparr>",
          OF v(3,4)]
  have g: "\<exists>p. fst (sendMessage exValid 2000 idConv1 idMsg1 emptyDb
               ((exSendReq ''hi'')\<lparr>sm_messageType := Some ''image'', sm_text := JUndefined\<rparr>)) =
             Created p"
    by (auto simp: f)
  from sendMessage_invalidInput_iff
         [where isValid = exValid and now = 2000 and newConvId = idConv1 and newMsgId = idMsg1
            and d = emptyDb and sv = exServices
            and req = "(exSendReq ''hi'')\<lparr>sm_messageType := Some ''image'',
                  sm_replyTo := Some \<lparr>rq_id = Some idMsg1, rq_text = Some (ascii ''yo''),
                                      rq_senderId = Some idB\<rparr>\<rparr>",
          OF v(5,6)]
  have h: "\<exists>p. fst (fst (sendMessage_part001 exValid exServices 2000 idConv1 idMsg1 emptyDb
               ((exSendReq ''hi'')\<lparr>sm_messageType := Some ''image'',
                  sm_replyTo := Some \<lparr>rq_id = Some idMsg1, rq_text = Some (ascii ''yo''),
                                      rq_senderId = Some idB\<rparr>\<rparr>))) = Created p"
    by (auto simp: f ok)
  from a b c e g h show ?thesis by (intro conjI) simp_all
qed

text \<open>
  The claim as stated fails for the type image: with \<open>text: 123\<close>, and with a \<open>replyTo\<close>
  whose id is malformed, the request is not accepted but answered 500.
\<close>

theorem sendMessage_image_not_accepted_counterexample:
  "sendMessage exValid 2000 idConv1 idMsg1 emptyDb
     ((exSendReq ''hi'')\<lparr>sm_messageType := Some ''image'', sm_text := JNum 123\<rparr>) =
     (ServerError, emptyDb)
 \<and> fst (sendMessage_part001 exValid exServices 2000 idConv1 idMsg1 emptyDb
     ((exSendReq ''hi'')\<lparr>sm_messageType := Some ''image'', sm_text := JNum 123\<rparr>)) =
     (ServerError, emptyDb)
 \<and> sendMessage exValid 2000 idConv1 idMsg1 emptyDb
     ((exSendReq ''hi'')\<lparr>sm_messageType := Some ''image'',
        sm_replyTo := Some \<lparr>rq_id = Some ''bad'', rq_text = Some (ascii ''yo''),
                            rq_senderId = None\<rparr>\<rparr>) =
     (ServerError, emptyDb)
 \<and> fst (sendMessage_part001 exValid exServices 2000 idConv1 idMsg1 emptyDb
     ((exSendReq ''hi'')\<lparr>sm_messageType := Some ''image'',
        sm_replyTo := Some \<lparr>rq_id = Some ''bad'', rq_text = Some (ascii ''yo''),
                            rq_senderId = None\<rparr>\<rparr>)) =
     (ServerError, emptyDb)"
  by (simp add: sendMessage_def sendMessage_part001_def exSendReq_def ex_valid_ids
        contentError_def messageTypeOf_def messageTextOf_def replyToDataOf_def present_def
        exValid_def ascii_def trim_def isWhiteSpace_def)

section \<open>markAsRead\<close>

lemma markAsRead_valid:
  assumes "validUser isValid (mr_userId req)" "validId isValid (mr_conversationId req)"
  shows "markAsRead isValid now d req =
     (Ok (),
      d\<lparr>messages :=
           map (\<lambda>m. if conversationId m = mr_conversationId req \<and> receiverId m = the (mr_userId req)
                        \<and> isRead m = False
                     then m\<lparr>isRead := True, readAt := Some now\<rparr> else m) (messages d),
         conversations :=
           updateFirst (\<lambda>c. c_id c = mr_conversationId req)
             (\<lambda>c. c\<lparr>unreadCount := (unreadCount c)(the (mr_userId req) \<mapsto> 0)\<rparr>)
             (conversations d)\<rparr>)"
  using assms by (simp add: markAsRead_def Let_def)

lemma ex_db2_fields:
  "messages exDb2 = [exMsg 0, exMsg 1, exMsgBC]"
  "conversations exDb2 = [exConvAB, exConvBC]"
  by (simp_all add: exDb2_def)

lemma ex_read_fields:
  "mr_userId (exReadReq u c) = Some u" "mr_conversationId (exReadReq u c) = c"
  by (simp_all add: exReadReq_def)

text \<open>
  C2. \<open>markAsRead\<close> is idempotent: for every store and request, a second call right after
  the first (at any later time) leaves the response and the whole store as the first call
  left them. One call with well-formed ids turns every message of the conversation
  whose receiver is the caller and which is unread into \<open>isRead = true\<close> with \<open>readAt\<close>
  set to the time of the call, leaves every other message as it was, and sets the
  caller's \<open>unreadCount\<close> entry of the conversation to 0.
\<close>

theorem markAsRead_idempotent:
  "markAsRead isValid now2 (snd (markAsRead isValid now d req)) req = markAsRead isValid now d req
   \<and> (validUser isValid (mr_userId req) \<and> validId isValid (mr_conversationId req) \<longrightarrow>
        length (messages (snd (markAsRead isValid now d req))) = length (messages d)
      \<and> (\<forall>i < length (messages d).
           (let m = messages d ! i; m' = messages (snd (markAsRead isValid now d req)) ! i
            in if conversationId m = mr_conversationId req \<and> receiverId m = the (mr_userId req)
                  \<and> \<not> isRead m
               then m' = m\<lparr>isRead := True, readAt := Some now\<rparr>
               else m' = m))
      \<and> (\<forall>c. find (\<lambda>c. c_id c = mr_conversationId req) (conversations d) = Some c \<longrightarrow>
             (\<exists>c'. find (\<lambda>c. c_id c = mr_conversationId req)
                     (conversations (snd (markAsRead isValid now d req))) = Some c'
                   \<and> unreadCount c' (the (mr_userId req)) = Some 0)))"
proof (cases "validUser isValid (mr_userId req) \<and> validId isValid (mr_conversationId req)")
  case False
  then show ?thesis by (auto simp: markAsRead_def)
next
  case True
  then have u: "validUser isValid (mr_userId req)" and c: "validId isValid (mr_conversationId req)"
    by simp_all
  have idem: "markAsRead isValid now2 (snd (markAsRead isValid now d req)) req
                = markAsRead isValid now d req"
    by (simp add: markAsRead_valid[OF u c] updateFirst_idem o_def cong: map_cong)
  have eff: "\<forall>c. find (\<lambda>c. c_id c = mr_conversationId req) (conversations d) = Some c \<longrightarrow>
             (\<exists>c'. find (\<lambda>c. c_id c = mr_conversationId req)
                     (conversations (snd (markAsRead isValid now d req))) = Some c'
                   \<and> unreadCount c' (the (mr_userId req)) = Some 0)"
    by (simp add: markAsRead_valid[OF u c] find_updateFirst)
  show ?thesis
    using idem eff by (simp add: markAsRead_valid[OF u c] Let_def)
qed

theorem markAsRead_idempotent_witness:
  "markAsRead exValid 9 (snd (markAsRead exValid 7 exDb2 (exReadReq idB idConv1)))
       (exReadReq idB idConv1) =
     markAsRead exValid 7 exDb2 (exReadReq idB idConv1)
 \<and> length (messages (snd (markAsRead exValid 7 exDb2 (exReadReq idB idConv1)))) = 3
 \<and> map isRead (messages (snd (markAsRead exValid 7 exDb2 (exReadReq idB idConv1)))) =
     [True, True, False]
 \<and> map readAt (messages (snd (markAsRead exValid 7 exDb2 (exReadReq idB idConv1)))) =
     [Some 7, Some 7, None]
 \<and> map (\<lambda>c. unreadCount c idB)
      (conversations (snd (markAsRead exValid 7 exDb2 (exReadReq idB idConv1)))) =
     [Some 0, None]"
proof -
  have v: "validUser exValid (mr_userId (exReadReq idB idConv1))"
      "validId exValid (mr_conversationId (exReadReq idB idConv1))"
    by (simp_all add: ex_read_fields ex_valid_ids)
  note inst = markAsRead_idempotent[of exValid 9 7 exDb2 "exReadReq idB idConv1"]
  have a: "markAsRead exValid 9 (snd (markAsRead exValid 7 exDb2 (exReadReq idB idConv1)))
       (exReadReq idB idConv1) =
     markAsRead exValid 7 exDb2 (exReadReq idB idConv1)"
    using inst by (rule conjunct1)
  have l: "length (messages (snd (markAsRead exValid 7 exDb2 (exReadReq idB idConv1)))) =
             length (messages exDb2)"
    using conjunct2[OF inst] v by (elim impE conjE) (intro conjI)
  have b: "map isRead (messages (snd (markAsRead exValid 7 exDb2 (exReadReq idB idConv1)))) =
             [True, True, False]
      \<and> map readAt (messages (snd (markAsRead exValid 7 exDb2 (exReadReq idB idConv1)))) =
             [Some 7, Some 7, None]
      \<and> map (\<lambda>c. unreadCount c idB)
             (conversations (snd (markAsRead exValid 7 exDb2 (exReadReq idB idConv1)))) =
             [Some 0, None]"
    unfolding markAsRead_valid[OF v]
    by (simp add: ex_read_fields ex_db2_fields exMsg_def exMsgBC_def
          exConvAB_def exConvBC_def ex_ids)
  from a l b show ?thesis by (simp add: ex_db2_fields)
qed

text \<open>
  C10. \<open>markAsRead\<close> checks neither that the conversation exists nor that the caller is
  one of its participants. It never answers NotFound. For every well-formed caller and
  conversation id it answers success; the conversation with that id, whoever its
  participants are, has the caller's \<open>unreadCount\<close> entry set to 0; every other
  conversation is as it was; and when no conversation has that id the conversations do
  not change at all.
\<close>

theorem markAsRead_no_membership_check:
  "(\<forall>msg. fst (markAsRead isValid now d req) \<noteq> NotFound msg)
 \<and> (validUser isValid (mr_userId req) \<and> validId isValid (mr_conversationId req) \<longrightarrow>
      fst (markAsRead isValid now d req) = Ok ()
    \<and> (case find (\<lambda>c. c_id c = mr_conversationId req) (conversations d) of
         None \<Rightarrow> conversations (snd (markAsRead isValid now d req)) = conversations d
       | Some conv \<Rightarrow>
           find (\<lambda>c. c_id c = mr_conversationId req)
             (conversations (snd (markAsRead isValid now d req))) =
           Some (conv\<lparr>unreadCount := (unreadCount conv)(the (mr_userId req) \<mapsto> 0)\<rparr>))
    \<and> filter (\<lambda>c. c_id c \<noteq> mr_conversationId req)
         (conversations (snd (markAsRead isValid now d req))) =
       filter (\<lambda>c. c_id c \<noteq> mr_conversationId req) (conversations d))"
proof -
  have nf: "\<forall>msg. fst (markAsRead isValid now d req) \<noteq> NotFound msg"
    by (simp add: markAsRead_def Let_def)
  have ok: "validUser isValid (mr_userId req) \<Longrightarrow> validId isValid (mr_conversationId req) \<Longrightarrow>
      fst (markAsRead isValid now d req) = Ok ()
    \<and> (case find (\<lambda>c. c_id c = mr_conversationId req) (conversations d) of
         None \<Rightarrow> conversations (snd (markAsRead isValid now d req)) = conversations d
       | Some conv \<Rightarrow>
           find (\<lambda>c. c_id c = mr_conversationId req)
             (conversations (snd (markAsRead isValid now d req))) =
           Some (conv\<lparr>unreadCount := (unreadCount conv)(the (mr_userId req) \<mapsto> 0)\<rparr>))
    \<and> filter (\<lambda>c. c_id c \<noteq> mr_conversationId req)
         (conversations (snd (markAsRead isValid now d req))) =
       filter (\<lambda>c. c_id c \<noteq> mr_conversationId req) (conversations d)"
    by (auto simp: markAsRead_valid find_updateFirst updateFirst_none
          filter_updateFirst_other split: option.splits)
  from nf ok show ?thesis by blast
qed

theorem markAsRead_no_membership_check_witness:
  "idC \<notin> set (participants exConvAB)
 \<and> fst (markAsRead exValid 7 exDb2 (exReadReq idC idConv1)) = Ok ()
 \<and> map (\<lambda>c. unreadCount c idC)
      (conversations (snd (markAsRead exValid 7 exDb2 (exReadReq idC idConv1)))) =
    [Some 0, Some 1]
 \<and> fst (markAsRead exValid 7 exDb2 (exReadReq idC idMsg1)) = Ok ()
 \<and> conversations (snd (markAsRead exValid 7 exDb2 (exReadReq idC idMsg1))) =
    conversations exDb2"
proof -
  have v: "validUser exValid (mr_userId (exReadReq idC idConv1))"
      "validId exValid (mr_conversationId (exReadReq idC idConv1))"
      "validUser exValid (mr_userId (exReadReq idC idMsg1))"
      "validId exValid (mr_conversationId (exReadReq idC idMsg1))"
    by (simp_all add: ex_read_fields ex_valid_ids)
  have f: "find (\<lambda>c. c_id c = mr_conversationId (exReadReq idC idMsg1)) (conversations exDb2) = None"
    by (simp add: ex_read_fields ex_db2_fields exConvAB_def exConvBC_def ex_ids)
  have a: "fst (markAsRead exValid 7 exDb2 (exReadReq idC idConv1)) = Ok ()"
    using markAsRead_no_membership_check[of exValid 7 exDb2 "exReadReq idC idConv1"] v by blast
  have b: "fst (markAsRead exValid 7 exDb2 (exReadReq idC idMsg1)) = Ok ()
         \<and> conversations (snd (markAsRead exValid 7 exDb2 (exReadReq idC idMsg1))) =
           conversations exDb2"
    using markAsRead_no_membership_check[of exValid 7 exDb2 "exReadReq idC idMsg1"] v f
    by simp
  have c: "idC \<notin> set (participants exConvAB)
        \<and> map (\<lambda>c. unreadCount c idC)
            (conversations (snd (markAsRead exValid 7 exDb2 (exReadReq idC idConv1)))) =
          [Some 0, Some 1]"
    unfolding markAsRead_valid[OF v(1,2)]
    by (simp add: ex_read_fields ex_db2_fields exConvAB_def exConvBC_def ex_ids)
  from a b c show ?thesis by blast
qed

section \<open>deleteConversations\<close>

lemma collectValid_filter:
  "collectValid isValid d userId ids =
     filter (\<lambda>i. isValid i \<and>
                 (\<exists>c\<in>set (conversations d). c_id c = i \<and> userId \<in> set (participants c))) ids"
proof (induction ids)
  case Nil
  show ?case by simp
next
  case (Cons i ids)
  show ?case
  proof (cases "find (\<lambda>c. c_id c = i \<and> userId \<in> set (participants c)) (conversations d)")
    case None
    then have "\<not> (\<exists>c\<in>set (conversations d). c_id c = i \<and> userId \<in> set (participants c))"
      by (auto simp: find_None_iff)
    with None Cons show ?thesis by simp
  next
    case (Some c)
    then have "c_id c = i \<and> userId \<in> set (participants c) \<and> c \<in> set (conversations d)"
      using find_Some_conv[OF Some] by simp
    with Some Cons show ?thesis by auto
  qed
qed

lemma deleteConversations_nonempty:
  assumes "validUser isValid (dc_userId req)" "dc_conversationIds req = Some ids" "ids \<noteq> []"
  shows "deleteConversations isValid d req =
     (let valid = collectValid isValid d (the (dc_userId req)) ids
      in if valid = [] then (NotFound ''No valid conversations found'', d)
         else (Ok (length valid),
               d\<lparr>messages := filter (\<lambda>m. conversationId m \<notin> set valid) (messages d),
                 conversations := filter (\<lambda>c. c_id c \<notin> set valid) (conversations d)\<rparr>))"
  using assms by (simp add: deleteConversations_def Let_def)

lemma length_filter_ids:
  assumes dc: "distinct (map k xs)" and di: "distinct S" and sub: "set S \<subseteq> k ` set xs"
  shows "length (filter (\<lambda>x. k x \<in> set S) xs) = length S"
proof -
  have "distinct (map k (filter (\<lambda>x. k x \<in> set S) xs))"
    using dc by (simp add: distinct_map_filter)
  moreover have "set (map k (filter (\<lambda>x. k x \<in> set S) xs)) = set S"
    using sub by auto
  ultimately have "length (map k (filter (\<lambda>x. k x \<in> set S) xs)) = card (set S)"
    by (metis distinct_card)
  then show ?thesis using di by (simp add: distinct_card)
qed

lemma length_filter_removed:
  "length xs - length (filter (\<lambda>x. \<not> P x) xs) = length (filter P xs)"
  using sum_length_filter_compl[of P xs] by simp

lemma deleted_count:
  assumes "distinct S" "distinct (map k xs)" "set S \<subseteq> k ` set xs"
  shows "length S = length xs - length (filter (\<lambda>x. k x \<notin> set S) xs)"
  using length_filter_ids[OF assms(2,1,3)] length_filter_removed[of xs "\<lambda>x. k x \<in> set S"]
  by simp

text \<open>
  C5, as amended. An empty or missing list of conversation ids is answered 400 before any
  id is looked at. For every non-empty input list, \<open>deleteConversations\<close> silently drops
  each id that is malformed or whose conversation does not list the caller among its
  participants. If nothing survives it answers NotFound (404) and the store is
  unchanged. Otherwise it answers success, deletes all messages under the surviving ids
  and the conversations with those ids, and, when the list repeats no id,
  \<open>deletedCount\<close> is the number of surviving ids; with the ids of the stored
  conversations distinct as well, that is the number of conversation records deleted.
  (What \<open>deletedCount\<close> is for a list that repeats an id is not part of this statement.)
\<close>

theorem deleteConversations_owned_only:
  assumes u: "validUser isValid (dc_userId req)"
  shows "(dc_conversationIds req = None \<or> dc_conversationIds req = Some [] \<longrightarrow>
            deleteConversations isValid d req = (BadRequest ''No conversation IDs provided'', d))
       \<and> (\<forall>ids. dc_conversationIds req = Some ids \<and> ids \<noteq> [] \<longrightarrow>
            (let owned = filter (\<lambda>i. isValid i \<and>
                            (\<exists>c\<in>set (conversations d).
                                c_id c = i \<and> the (dc_userId req) \<in> set (participants c))) ids
             in if owned = []
                then deleteConversations isValid d req =
                       (NotFound ''No valid conversations found'', d)
                else \<exists>n. deleteConversations isValid d req =
                       (Ok n,
                        d\<lparr>messages := filter (\<lambda>m. conversationId m \<notin> set owned) (messages d),
                          conversations := filter (\<lambda>c. c_id c \<notin> set owned) (conversations d)\<rparr>)
                     \<and> (distinct ids \<longrightarrow> n = card (set owned))
                     \<and> (distinct ids \<and> distinct (map c_id (conversations d)) \<longrightarrow>
                          n = length (conversations d) -
                              length (filter (\<lambda>c. c_id c \<notin> set owned) (conversations d)))))"
proof -
  have bad: "dc_conversationIds req = None \<or> dc_conversationIds req = Some [] \<longrightarrow>
            deleteConversations isValid d req = (BadRequest ''No conversation IDs provided'', d)"
    using u by (auto simp: deleteConversations_def)
  have main: "let owned = filter (\<lambda>i. isValid i \<and>
                            (\<exists>c\<in>set (conversations d).
                                c_id c = i \<and> the (dc_userId req) \<in> set (participants c))) ids
             in if owned = []
                then deleteConversations isValid d req =
                       (NotFound ''No valid conversations found'', d)
                else \<exists>n. deleteConversations isValid d req =
                       (Ok n,
                        d\<lparr>messages := filter (\<lambda>m. conversationId m \<notin> set owned) (messages d),
                          conversations := filter (\<lambda>c. c_id c \<notin> set owned) (conversations d)\<rparr>)
                     \<and> (distinct ids \<longrightarrow> n = card (set owned))
                     \<and> (distinct ids \<and> distinct (map c_id (conversations d)) \<longrightarrow>
                          n = length (conversations d) -
                              length (filter (\<lambda>c. c_id c \<notin> set owned) (conversations d)))"
    if ids: "dc_conversationIds req = Some ids" and ne: "ids \<noteq> []" for ids
  proof -
    let ?owned = "filter (\<lambda>i. isValid i \<and>
                            (\<exists>c\<in>set (conversations d).
                                c_id c = i \<and> the (dc_userId req) \<in> set (participants c))) ids"
    have sub: "set ?owned \<subseteq> c_id ` set (conversations d)" by auto
    have cnt: "distinct ids \<Longrightarrow> length ?owned = card (set ?owned)"
      by (rule distinct_card[symmetric]) (rule distinct_filter)
    have del: "distinct ids \<Longrightarrow> distinct (map c_id (conversations d)) \<Longrightarrow>
           length ?owned = length (conversations d) -
              length (filter (\<lambda>c. c_id c \<notin> set ?owned) (conversations d))"
      by (rule deleted_count[OF distinct_filter _ sub])
    have res: "?owned \<noteq> [] \<Longrightarrow> deleteConversations isValid d req =
                 (Ok (length ?owned),
                  d\<lparr>messages := filter (\<lambda>m. conversationId m \<notin> set ?owned) (messages d),
                    conversations := filter (\<lambda>c. c_id c \<notin> set ?owned) (conversations d)\<rparr>)"
      and nf: "?owned = [] \<Longrightarrow> deleteConversations isValid d req =
                 (NotFound ''No valid conversations found'', d)"
      using u ids ne by (simp_all add: deleteConversations_def Let_def collectValid_filter)
    show ?thesis
      unfolding Let_def
    proof (cases "?owned = []")
      case True
      with nf show "if ?owned = [] then deleteConversations isValid d req =
                       (NotFound ''No valid conversations found'', d)
                else \<exists>n. deleteConversations isValid d req =
                       (Ok n,
                        d\<lparr>messages := filter (\<lambda>m. conversationId m \<notin> set ?owned) (messages d),
                          conversations := filter (\<lambda>c. c_id c \<notin> set ?owned) (conversations d)\<rparr>)
                     \<and> (distinct ids \<longrightarrow> n = card (set ?owned))
                     \<and> (distinct ids \<and> distinct (map c_id (conversations d)) \<longrightarrow>
                          n = length (conversations d) -
                              length (filter (\<lambda>c. c_id c \<notin> set ?owned) (conversations d)))"
        by simp
    next
      case False
      with res cnt del show "if ?owned = [] then deleteConversations isValid d req =
                       (NotFound ''No valid conversations found'', d)
                else \<exists>n. deleteConversations isValid d req =
                       (Ok n,
                        d\<lparr>messages := filter (\<lambda>m. conversationId m \<notin> set ?owned) (messages d),
                          conversations := filter (\<lambda>c. c_id c \<notin> set ?owned) (conversations d)\<rparr>)
                     \<and> (distinct ids \<longrightarrow> n = card (set ?owned))
                     \<and> (distinct ids \<and> distinct (map c_id (conversations d)) \<longrightarrow>
                          n = length (conversations d) -
                              length (filter (\<lambda>c. c_id c \<notin> set ?owned) (conversations d)))"
        by (simp only: if_False) (intro exI[of _ "length ?owned"] conjI impI; simp)
    qed
  qed
  from bad main show ?thesis by blast
qed

theorem deleteConversations_owned_only_witness:
  "deleteConversations exValid exDb2 (exDeleteReq [idConv1, ''bad'', idConv2]) =
     (Ok 1, exDb2\<lparr>messages := [exMsgBC], conversations := [exConvBC]\<rparr>)
 \<and> deleteConversations exValid exDb2 (exDeleteReq [''bad'', idConv2]) =
     (NotFound ''No valid conversations found'', exDb2)
 \<and> deleteConversations exValid exDb2 (exDeleteReq []) =
     (BadRequest ''No conversation IDs provided'', exDb2)
 \<and> deleteConversations exValid exDb2 ((exDeleteReq [])\<lparr>dc_conversationIds := None\<rparr>) =
     (BadRequest ''No conversation IDs provided'', exDb2)"
proof -
  have v: "validUser exValid (dc_userId (exDeleteReq ids))"
      "dc_conversationIds (exDeleteReq ids) = Some ids"
      "validUser exValid (dc_userId ((exDeleteReq ids)\<lparr>dc_conversationIds := None\<rparr>))"
      "dc_conversationIds ((exDeleteReq ids)\<lparr>dc_conversationIds := None\<rparr>) = None" for ids
    by (simp_all add: exDeleteReq_def ex_valid_ids)
  have o1: "filter (\<lambda>i. exValid i \<and>
              (\<exists>c\<in>set (conversations exDb2).
                  c_id c = i \<and> the (dc_userId (exDeleteReq [idConv1, ''bad'', idConv2]))
                    \<in> set (participants c))) [idConv1, ''bad'', idConv2] = [idConv1]"
    by (simp add: exDeleteReq_def exDb2_def exConvAB_def exConvBC_def ex_ids)
  have o2: "filter (\<lambda>i. exValid i \<and>
              (\<exists>c\<in>set (conversations exDb2).
                  c_id c = i \<and> the (dc_userId (exDeleteReq [''bad'', idConv2]))
                    \<in> set (participants c))) [''bad'', idConv2] = []"
    by (simp add: exDeleteReq_def exDb2_def exConvAB_def exConvBC_def ex_ids)
  have k: "filter (\<lambda>m. conversationId m \<noteq> idConv1) (messages exDb2) = [exMsgBC]"
      "filter (\<lambda>c. c_id c \<noteq> idConv1) (conversations exDb2) = [exConvBC]"
    by (simp_all add: exDb2_def exMsg_def exMsgBC_def exConvAB_def exConvBC_def ex_ids)
  have di: "distinct [idConv1, ''bad'', idConv2]" "distinct (map c_id (conversations exDb2))"
    by (simp_all add: exDb2_def exConvAB_def exConvBC_def ex_ids)
  have "\<exists>n. deleteConversations exValid exDb2 (exDeleteReq [idConv1, ''bad'', idConv2]) =
              (Ok n, exDb2\<lparr>messages := [exMsgBC], conversations := [exConvBC]\<rparr>) \<and> n = 1"
    using conjunct2[OF deleteConversations_owned_only[OF v(1), of "[idConv1, ''bad'', idConv2]" exDb2],
            rule_format, of "[idConv1, ''bad'', idConv2]"] v(2) di
    unfolding o1 Let_def by (simp add: k)
  then have a: "deleteConversations exValid exDb2 (exDeleteReq [idConv1, ''bad'', idConv2]) =
     (Ok 1, exDb2\<lparr>messages := [exMsgBC], conversations := [exConvBC]\<rparr>)"
    by auto
  have b: "deleteConversations exValid exDb2 (exDeleteReq [''bad'', idConv2]) =
     (NotFound ''No valid conversations found'', exDb2)"
    using conjunct2[OF deleteConversations_owned_only[OF v(1), of "[''bad'', idConv2]" exDb2],
            rule_format, of "[''bad'', idConv2]"] v(2)
    unfolding o2 Let_def by simp
  have c: "deleteConversations exValid exDb2 (exDeleteReq []) =
     (BadRequest ''No conversation IDs provided'', exDb2)"
    using conjunct1[OF deleteConversations_owned_only[OF v(1), of "[]" exDb2]] v(2)
    by simp
  have e: "deleteConversations exValid exDb2 ((exDeleteReq [])\<lparr>dc_conversationIds := None\<rparr>) =
     (BadRequest ''No conversation IDs provided'', exDb2)"
    using conjunct1[OF deleteConversations_owned_only[OF v(3), of "[]" exDb2]] v(4)
    by simp
  from a b c e show ?thesis by (intro conjI)
qed

text \<open>
  The claim as stated fails in two places. On the empty list nothing survives, and the
  answer is 400, not 404. On a list that names one owned conversation twice there is
  one surviving id and one conversation is deleted, and \<open>deletedCount\<close> is 2.
\<close>

theorem deleteConversations_as_claimed_counterexample:
  "collectValid exValid exDb2 idA [] = []
 \<and> fst (deleteConversations exValid exDb2 (exDeleteReq [])) =
     BadRequest ''No conversation IDs provided''
 \<and> fst (deleteConversations exValid exDb2 (exDeleteReq [])) \<noteq>
     NotFound ''No valid conversations found''
 \<and> conversations exDb2 = [exConvAB, exConvBC]
 \<and> deleteConversations exValid exDb2 (exDeleteReq [idConv1, idConv1]) =
     (Ok 2, exDb2\<lparr>messages := [exMsgBC], conversations := [exConvBC]\<rparr>)"
proof -
  have a: "collectValid exValid exDb2 idA [] = []
     \<and> fst (deleteConversations exValid exDb2 (exDeleteReq [])) =
         BadRequest ''No conversation IDs provided''
     \<and> fst (deleteConversations exValid exDb2 (exDeleteReq [])) \<noteq>
         NotFound ''No valid conversations found''
     \<and> conversations exDb2 = [exConvAB, exConvBC]"
    by (simp add: deleteConversations_def exDeleteReq_def ex_valid_ids exDb2_def)
  have o: "collectValid exValid exDb2 (the (dc_userId (exDeleteReq [idConv1, idConv1])))
             [idConv1, idConv1] = [idConv1, idConv1]"
    by (simp add: exDeleteReq_def exDb2_def exConvAB_def exConvBC_def ex_ids)
  have k: "filter (\<lambda>m. conversationId m \<noteq> idConv1) (messages exDb2) = [exMsgBC]"
      "filter (\<lambda>c. c_id c \<noteq> idConv1) (conversations exDb2) = [exConvBC]"
    by (simp_all add: exDb2_def exMsg_def exMsgBC_def exConvAB_def exConvBC_def ex_ids)
  have v: "validUser exValid (dc_userId (exDeleteReq [idConv1, idConv1]))"
      "dc_conversationIds (exDeleteReq [idConv1, idConv1]) = Some [idConv1, idConv1]"
    by (simp_all add: exDeleteReq_def ex_valid_ids)
  have "deleteConversations exValid exDb2 (exDeleteReq [idConv1, idConv1]) =
          (let valid = collectValid exValid exDb2
                         (the (dc_userId (exDeleteReq [idConv1, idConv1]))) [idConv1, idConv1]
           in if valid = [] then (NotFound ''No valid conversations found'', exDb2)
              else (Ok (length valid),
                    exDb2\<lparr>messages := filter (\<lambda>m. conversationId m \<notin> set valid) (messages exDb2),
                          conversations :=
                            filter (\<lambda>c. c_id c \<notin> set valid) (conversations exDb2)\<rparr>))"
    by (rule deleteConversations_nonempty[OF v]) simp
  then have b: "deleteConversations exValid exDb2 (exDeleteReq [idConv1, idConv1]) =
     (Ok 2, exDb2\<lparr>messages := [exMsgBC], conversations := [exConvBC]\<rparr>)"
    unfolding o Let_def by (simp add: k)
  from a b show ?thesis by (intro conjI) simp_all
qed

section \<open>getMessages: page, limit and the empty chat\<close>

text \<open>
  C9, as amended. For every call, \<open>getMessages\<close> takes \<open>limit\<close> as 30 when the parameter
  is absent, not a number or 0, and otherwise clamps it to the range [1,50]; it takes
  \<open>page\<close> as 1 when the parameter is absent or not a number, and otherwise as at least
  1. So the limit is always within [1,50] and the page at least 1; a successful answer
  echoes that page and holds at most that many messages. When no conversation exists
  for the pair the answer is a success with no messages, no conversation id and
  \<open>hasMore = false\<close>. (The claim as stated, a clamp to [1,50], fails for \<open>limit=0\<close>: the
  clamp would give 1, the code falls back to the default 30.)
\<close>

theorem getMessages_limit_page:
  "limitOf req =
     (case gm_limit req of None \<Rightarrow> 30 | Some n \<Rightarrow> if n = 0 then 30 else min 50 (max 1 n))
   \<and> 1 \<le> limitOf req \<and> limitOf req \<le> 50
   \<and> pageOf req = (case gm_page req of None \<Rightarrow> 1 | Some n \<Rightarrow> max 1 n)
   \<and> 1 \<le> pageOf req
   \<and> (\<forall>res. getMessages isValid d req = Ok res \<longrightarrow>
         res_page res = pageOf req \<and> int (length (res_messages res)) \<le> limitOf req)
   \<and> (validUser isValid (gm_userId req) \<and> validId isValid (gm_recipientId req)
        \<and> findConversation d (the (gm_userId req)) (gm_recipientId req) = None \<longrightarrow>
       getMessages isValid d req =
         Ok \<lparr>res_messages = [], res_conversationId = None, res_page = pageOf req,
             res_hasMore = False\<rparr>)"
proof -
  have l: "1 \<le> limitOf req" "limitOf req \<le> 50"
    by (simp_all add: limitOf_def)
  have le: "limitOf req =
      (case gm_limit req of None \<Rightarrow> 30 | Some n \<Rightarrow> if n = 0 then 30 else min 50 (max 1 n))"
    by (simp add: limitOf_def orDefault_def split: option.splits)
  have p: "pageOf req = (case gm_page req of None \<Rightarrow> 1 | Some n \<Rightarrow> max 1 n)"
    by (auto simp: pageOf_def orDefault_def split: option.splits)
  have p1: "1 \<le> pageOf req" by (simp add: pageOf_def)
  have r: "\<forall>res. getMessages isValid d req = Ok res \<longrightarrow>
         res_page res = pageOf req \<and> int (length (res_messages res)) \<le> limitOf req"
    using l by (auto simp: getMessages_def Let_def split: if_splits option.splits)
  have e: "validUser isValid (gm_userId req) \<and> validId isValid (gm_recipientId req)
        \<and> findConversation d (the (gm_userId req)) (gm_recipientId req) = None \<longrightarrow>
       getMessages isValid d req =
         Ok \<lparr>res_messages = [], res_conversationId = None, res_page = pageOf req,
             res_hasMore = False\<rparr>"
    by (simp add: getMessages_def Let_def)
  show ?thesis using l le p p1 r e by blast
qed

theorem getMessages_limit_page_witness:
  "limitOf (exPageReq (Some (- 3)) (Some 500)) = 50
 \<and> pageOf (exPageReq (Some (- 3)) (Some 500)) = 1
 \<and> limitOf (exPageReq None None) = 30
 \<and> getMessages exValid emptyDb (exPageReq (Some (- 3)) (Some 500)) =
     Ok \<lparr>res_messages = [], res_conversationId = None, res_page = 1, res_hasMore = False\<rparr>"
proof -
  have f: "gm_limit (exPageReq p l) = l" "gm_page (exPageReq p l) = p"
      "validUser exValid (gm_userId (exPageReq p l))"
      "validId exValid (gm_recipientId (exPageReq p l))"
      "findConversation emptyDb (the (gm_userId (exPageReq p l))) (gm_recipientId (exPageReq p l)) =
         None" for p l
    by (simp_all add: exPageReq_def ex_valid_ids findConversation_def emptyDb_def)
  from getMessages_limit_page[of "exPageReq (Some (- 3)) (Some 500)" exValid emptyDb]
  have a: "limitOf (exPageReq (Some (- 3)) (Some 500)) = 50
         \<and> pageOf (exPageReq (Some (- 3)) (Some 500)) = 1
         \<and> getMessages exValid emptyDb (exPageReq (Some (- 3)) (Some 500)) =
             Ok \<lparr>res_messages = [], res_conversationId = None, res_page = 1,
                 res_hasMore = False\<rparr>"
    by (simp add: f)
  from getMessages_limit_page[of "exPageReq None None" exValid emptyDb]
  have b: "limitOf (exPageReq None None) = 30"
    by (simp add: f)
  from a b show ?thesis by blast
qed

text \<open>
  \<open>limit=0\<close>: clamping 0 to [1,50] gives 1, but the handler works with 30 and returns both
  messages of a two-message chat.
\<close>

theorem getMessages_limit_zero_counterexample:
  "limitOf (exPageReq (Some 1) (Some 0)) = 30
 \<and> limitOf (exPageReq (Some 1) (Some 0)) \<noteq> min 50 (max 1 0)
 \<and> (\<exists>res. getMessages exValid (exDbN 2) (exPageReq (Some 1) (Some 0)) = Ok res
          \<and> length (res_messages res) = 2 \<and> \<not> res_hasMore res)"
proof -
  have s: "filter (\<lambda>m. conversationId m = c_id exConvAB) (messages (exDbN 2)) = [exMsg 1, exMsg 0]"
    by (simp add: exDbN_def exMsg_def exConvAB_def upt_rec[of 0] upt_rec[of 1] upt_rec[of 2]
          numeral_2_eq_2)
  have l: "limitOf (exPageReq (Some 1) (Some 0)) = 30" "pageOf (exPageReq (Some 1) (Some 0)) = 1"
    by (simp_all add: limitOf_def pageOf_def orDefault_def exPageReq_def)
  have v: "validUser exValid (gm_userId (exPageReq (Some 1) (Some 0)))"
      "validId exValid (gm_recipientId (exPageReq (Some 1) (Some 0)))"
    by (simp_all add: exPageReq_def ex_valid_ids)
  show ?thesis
    using v by (simp add: getMessages_def Let_def l ex_page_conv s sortDesc_def)
qed

section \<open>getConversations\<close>

lemma those_map_Some:
  "those (map f xs) = Some ys \<Longrightarrow>
     length ys = length xs \<and> (\<forall>i<length xs. f (xs ! i) = Some (ys ! i))"
proof (induction xs arbitrary: ys)
  case Nil
  then show ?case by simp
next
  case (Cons x xs)
  then obtain y ys' where y: "f x = Some y" "those (map f xs) = Some ys'" "ys = y # ys'"
    by (auto split: option.splits)
  from Cons.IH[OF y(2)] y show ?case
    by (auto simp: nth_Cons split: nat.splits)
qed

lemma enrich_unread_zero: "enrich sign d userId conv = Some item \<Longrightarrow> ci_unreadCount item = 0"
  by (auto simp: enrich_def unreadViaGet_def itemOf_def Let_def split: option.splits)

lemma sortDesc_props:
  "set (sortDesc k xs) = set xs" "length (sortDesc k xs) = length xs"
  "sorted (rev (map k (sortDesc k xs)))"
  by (simp_all add: sortDesc_def rev_map[symmetric])

text \<open>
  The revised controller (\<open>src/unnamed/part_001\<close>) does what C6 says: it returns one item
  for each conversation the caller takes part in and no other, newest \<open>updatedAt\<close>
  first, each with the caller's stored unread entry (0 when absent), and with
  \<open>otherUser\<close> null when the other participant has no profile.
\<close>

lemma getConversations_part001_ok:
  assumes u: "validUser isValid userId"
  shows "\<exists>convs. getConversations_part001 isValid sign d userId =
                   Ok (map (enrich_part001 sign d (the userId)) convs)
          \<and> set convs = {c \<in> set (conversations d). the userId \<in> set (participants c)}
          \<and> length convs =
              length (filter (\<lambda>c. the userId \<in> set (participants c)) (conversations d))
          \<and> sorted (rev (map c_updatedAt convs))
          \<and> (\<forall>c\<in>set convs.
                ci_id (enrich_part001 sign d (the userId) c) = c_id c
              \<and> ci_updatedAt (enrich_part001 sign d (the userId) c) = c_updatedAt c
              \<and> ci_lastMessage (enrich_part001 sign d (the userId) c) = lastMessage c
              \<and> ci_unreadCount (enrich_part001 sign d (the userId) c) =
                  (case unreadCount c (the userId) of None \<Rightarrow> 0 | Some n \<Rightarrow> n)
              \<and> (otherUserOf d c (the userId) = None \<longrightarrow>
                   ci_otherUser (enrich_part001 sign d (the userId) c) = None))"
  using u
  by (auto simp: getConversations_part001_def Let_def sortDesc_props enrich_part001_def
        itemOf_def unreadByKey_def)

text \<open>
  In \<open>src/controllers/chatController.js\<close> the rest of C6 holds as well: a successful
  answer lists the caller's conversations and no other, newest \<open>updatedAt\<close> first, with
  \<open>otherUser\<close> null where the other participant has no profile.
\<close>

lemma enrich_fields:
  assumes "enrich sign d userId conv = Some item"
  shows "ci_id item = c_id conv" "ci_updatedAt item = c_updatedAt conv"
    "ci_lastMessage item = lastMessage conv"
    "otherUserOf d conv userId = None \<Longrightarrow> ci_otherUser item = None"
  using assms
  by (auto simp: enrich_def itemOf_def Let_def split: option.splits)

lemma getConversations_items:
  assumes ok: "getConversations isValid sign d userId = Ok items"
  shows "\<exists>convs. set convs = {c \<in> set (conversations d). the userId \<in> set (participants c)}
          \<and> length convs =
              length (filter (\<lambda>c. the userId \<in> set (participants c)) (conversations d))
          \<and> sorted (rev (map c_updatedAt convs))
          \<and> map ci_id items = map c_id convs
          \<and> map ci_updatedAt items = map c_updatedAt convs
          \<and> (\<forall>i<length convs. otherUserOf d (convs ! i) (the userId) = None \<longrightarrow>
                 ci_otherUser (items ! i) = None)"
proof -
  let ?convs = "sortDesc c_updatedAt
                  (filter (\<lambda>c. the userId \<in> set (participants c)) (conversations d))"
  from ok have th: "those (map (enrich sign d (the userId)) ?convs) = Some items"
    by (auto simp: getConversations_def Let_def split: if_splits option.splits)
  from those_map_Some[OF th]
  have len: "length items = length ?convs"
    and each: "\<And>i. i < length ?convs \<Longrightarrow>
                 enrich sign d (the userId) (?convs ! i) = Some (items ! i)"
    by auto
  have "map ci_id items = map c_id ?convs" "map ci_updatedAt items = map c_updatedAt ?convs"
    using len enrich_fields(1,2)[OF each] by (simp_all add: list_eq_iff_nth_eq)
  moreover have "\<forall>i<length ?convs. otherUserOf d (?convs ! i) (the userId) = None \<longrightarrow>
                 ci_otherUser (items ! i) = None"
    using enrich_fields(4)[OF each] by blast
  ultimately show ?thesis
    by (intro exI[of _ ?convs]) (auto simp: sortDesc_props)
qed

text \<open>
  C6. \<open>getConversations\<close> should report, for each conversation of the caller, the
  caller's own stored \<open>unreadCount\<close> entry. In \<open>src/controllers/chatController.js\<close> it
  does not: the entry is read with \<open>.get\<close> from the result of a \<open>.lean()\<close> query, where the
  map is a plain object without such a method, so every item of every successful answer
  reports 0, whatever is stored.
\<close>

theorem getConversations_unread_always_zero:
  assumes "getConversations isValid sign d userId = Ok items"
  shows "map ci_unreadCount items = replicate (length items) 0"
proof -
  let ?convs = "sortDesc c_updatedAt
                  (filter (\<lambda>c. the userId \<in> set (participants c)) (conversations d))"
  from assms have th: "those (map (enrich sign d (the userId)) ?convs) = Some items"
    by (auto simp: getConversations_def Let_def split: if_splits option.splits)
  have "ci_unreadCount (items ! i) = 0" if "i < length items" for i
  proof -
    from those_map_Some[OF th] that
    have "enrich sign d (the userId) (?convs ! i) = Some (items ! i)" by auto
    then show ?thesis by (rule enrich_unread_zero)
  qed
  then show ?thesis
    by (simp add: list_eq_iff_nth_eq)
qed

theorem getConversations_unread_always_zero_witness:
  "unreadCount exConvAB idB = Some 3
 \<and> (\<exists>items. getConversations exValid exSign exDb2 (Some idB) = Ok items
           \<and> map ci_id items = [idConv1, idConv2]
           \<and> map ci_unreadCount items = [0, 0])
 \<and> (\<exists>items. getConversations_part001 exValid exSign exDb2 (Some idB) = Ok items
           \<and> map ci_id items = [idConv1, idConv2]
           \<and> map ci_unreadCount items = [3, 0])"
proof -
  have s: "sortDesc c_updatedAt
             (filter (\<lambda>c. the (Some idB) \<in> set (participants c)) (conversations exDb2)) =
           [exConvAB, exConvBC]"
    by (simp add: sortDesc_def exDb2_def exConvAB_def exConvBC_def ex_ids)
  have e: "\<exists>items. getConversations exValid exSign exDb2 (Some idB) = Ok items
             \<and> map ci_id items = [idConv1, idConv2]"
    unfolding getConversations_def Let_def s using ex_valid_ids(2)
    by (simp add: enrich_def unreadViaGet_def itemOf_def exConvAB_def exConvBC_def ex_ids
          Let_def)
  then obtain items where i: "getConversations exValid exSign exDb2 (Some idB) = Ok items"
      "map ci_id items = [idConv1, idConv2]"
    by auto
  from i(2) have "length items = 2"
    by (metis length_map length_Cons list.size(3) numeral_2_eq_2)
  with getConversations_unread_always_zero[OF i(1)]
  have "map ci_unreadCount items = [0, 0]"
    by (simp add: numeral_2_eq_2)
  with i have a: "\<exists>items. getConversations exValid exSign exDb2 (Some idB) = Ok items
           \<and> map ci_id items = [idConv1, idConv2]
           \<and> map ci_unreadCount items = [0, 0]"
    by (intro exI[of _ items]) simp
  have b: "\<exists>items. getConversations_part001 exValid exSign exDb2 (Some idB) = Ok items
           \<and> map ci_id items = [idConv1, idConv2]
           \<and> map ci_unreadCount items = [3, 0]"
    unfolding getConversations_part001_def Let_def s using ex_valid_ids(2)
    by (simp add: enrich_part001_def unreadByKey_def itemOf_def exConvAB_def exConvBC_def
          ex_ids Let_def)
  have c: "unreadCount exConvAB idB = Some 3"
    by (simp add: exConvAB_def)
  from a b c show ?thesis by (intro conjI)
qed

section \<open>Push dispatch\<close>

lemma failedTokensOf_zip:
  "failedTokensOf toks rs = map fst (filter (\<lambda>(tok, resp). invalidTokenCode resp) (zip toks rs))"
proof (cases "failureCount rs > 0")
  case True
  then show ?thesis by (simp add: failedTokensOf_def)
next
  case False
  then have "\<forall>r\<in>set rs. r = Delivered"
    by (auto simp: failureCount_def filter_empty_conv)
  then have "filter (\<lambda>(tok, resp). invalidTokenCode resp) (zip toks rs) = []"
    by (fastforce simp: filter_empty_conv invalidTokenCode_def dest: set_zip_rightD)
  with False show ?thesis by (simp add: failedTokensOf_def)
qed

lemma failedTokensOf_iff:
  "tok \<in> set (failedTokensOf toks rs) \<longleftrightarrow>
     (\<exists>i. i < length toks \<and> i < length rs \<and> toks ! i = tok \<and>
          (rs ! i = Failed (Some ''messaging/invalid-registration-token'') \<or>
           rs ! i = Failed (Some ''messaging/registration-token-not-registered'')))"
proof
  assume "tok \<in> set (failedTokensOf toks rs)"
  then obtain r where "(tok, r) \<in> set (zip toks rs)" "invalidTokenCode r"
    by (auto simp: failedTokensOf_zip)
  then show "\<exists>i. i < length toks \<and> i < length rs \<and> toks ! i = tok \<and>
          (rs ! i = Failed (Some ''messaging/invalid-registration-token'') \<or>
           rs ! i = Failed (Some ''messaging/registration-token-not-registered''))"
    by (auto simp: set_zip invalidTokenCode_def split: send_response.splits)
next
  assume "\<exists>i. i < length toks \<and> i < length rs \<and> toks ! i = tok \<and>
          (rs ! i = Failed (Some ''messaging/invalid-registration-token'') \<or>
           rs ! i = Failed (Some ''messaging/registration-token-not-registered''))"
  then obtain i where i: "i < length toks" "i < length rs" "toks ! i = tok"
      "invalidTokenCode (rs ! i)"
    by (auto simp: invalidTokenCode_def)
  then have "(tok, rs ! i) \<in> set (zip toks rs)"
    by (auto simp: set_zip)
  with i(4) show "tok \<in> set (failedTokensOf toks rs)"
    by (force simp: failedTokensOf_zip)
qed

text \<open>
  C7. With Firebase initialised and at least one active token of the user:
  when the provider answers per token, \<open>sendPushToUser\<close> resolves to a success result
  carrying the number of delivered tokens, and a stored token is deactivated
  (\<open>isActive = false\<close>) exactly when its token string is one of the user's active tokens
  whose response failed with \<open>messaging/invalid-registration-token\<close> or
  \<open>messaging/registration-token-not-registered\<close>; every other token, also one whose
  response failed with another code, is left as it was. When the provider call fails
  as a whole, \<open>sendPushToUser\<close> resolves to the failure result \<open>reason: 'error'\<close> and
  changes nothing: the error is caught inside and does not reach the caller. The
  answer of the enclosing \<open>sendMessage\<close>, its messages and its conversations are the
  same whatever the push services do.
\<close>

theorem sendPushToUser_deactivates_invalid:
  "(firebaseInitialized sv \<and>
    filter (\<lambda>t. t_userId t = userId \<and> isActive t) (deviceTokens d) \<noteq> [] \<longrightarrow>
      (\<forall>e. provider sv (map fcmToken (filter (\<lambda>t. t_userId t = userId \<and> isActive t)
                                         (deviceTokens d))) n = Throws e \<longrightarrow>
           sendPushToUser sv now d userId n = (PushError e, d))
    \<and> (\<forall>rs. provider sv (map fcmToken (filter (\<lambda>t. t_userId t = userId \<and> isActive t)
                                          (deviceTokens d))) n = Responds rs \<longrightarrow>
           fst (sendPushToUser sv now d userId n) = PushSent (successCount rs)
         \<and> deviceTokens (snd (sendPushToUser sv now d userId n)) =
             map (\<lambda>t. if \<exists>i. i < length rs \<and>
                             i < length (filter (\<lambda>t. t_userId t = userId \<and> isActive t)
                                           (deviceTokens d)) \<and>
                             fcmToken (filter (\<lambda>t. t_userId t = userId \<and> isActive t)
                                         (deviceTokens d) ! i) = fcmToken t \<and>
                             (rs ! i = Failed (Some ''messaging/invalid-registration-token'') \<or>
                              rs ! i = Failed (Some ''messaging/registration-token-not-registered''))
                       then t\<lparr>isActive := False, t_updatedAt := now\<rparr>
                       else t)
               (deviceTokens d)))
 \<and> fst (fst (sendMessage_part001 isValid sv now newConvId newMsgId d req)) =
     fst (fst (sendMessage_part001 isValid sv' now newConvId newMsgId d req))
 \<and> messages (snd (fst (sendMessage_part001 isValid sv now newConvId newMsgId d req))) =
     messages (snd (fst (sendMessage_part001 isValid sv' now newConvId newMsgId d req)))
 \<and> conversations (snd (fst (sendMessage_part001 isValid sv now newConvId newMsgId d req))) =
     conversations (snd (fst (sendMessage_part001 isValid sv' now newConvId newMsgId d req)))"
proof -
  let ?tokens = "filter (\<lambda>t. t_userId t = userId \<and> isActive t) (deviceTokens d)"
  have thr: "firebaseInitialized sv \<Longrightarrow> ?tokens \<noteq> [] \<Longrightarrow>
             provider sv (map fcmToken ?tokens) n = Throws e \<Longrightarrow>
             sendPushToUser sv now d userId n = (PushError e, d)" for e
    by (simp add: sendPushToUser_def sendPushBody_def Let_def)
  have mem: "(fcmToken t \<in> set (failedTokensOf (map fcmToken ?tokens) rs)) =
             (\<exists>i. i < length rs \<and> i < length ?tokens \<and> fcmToken (?tokens ! i) = fcmToken t \<and>
                  (rs ! i = Failed (Some ''messaging/invalid-registration-token'') \<or>
                   rs ! i = Failed (Some ''messaging/registration-token-not-registered'')))"
    for t rs
    unfolding failedTokensOf_iff by auto
  have rsp: "firebaseInitialized sv \<Longrightarrow> ?tokens \<noteq> [] \<Longrightarrow>
             provider sv (map fcmToken ?tokens) n = Responds rs \<Longrightarrow>
             fst (sendPushToUser sv now d userId n) = PushSent (successCount rs) \<and>
             deviceTokens (snd (sendPushToUser sv now d userId n)) =
               map (\<lambda>t. if fcmToken t \<in> set (failedTokensOf (map fcmToken ?tokens) rs)
                         then t\<lparr>isActive := False, t_updatedAt := now\<rparr> else t)
                 (deviceTokens d)" for rs
    by (simp add: sendPushToUser_def sendPushBody_def Let_def map_idI)
  have ind: "fst (fst (sendMessage_part001 isValid sv now newConvId newMsgId d req)) =
             fst (fst (sendMessage_part001 isValid sv' now newConvId newMsgId d req))
          \<and> messages (snd (fst (sendMessage_part001 isValid sv now newConvId newMsgId d req))) =
             messages (snd (fst (sendMessage_part001 isValid sv' now newConvId newMsgId d req)))
          \<and> conversations (snd (fst (sendMessage_part001 isValid sv now newConvId newMsgId d req))) =
             conversations (snd (fst (sendMessage_part001 isValid sv' now newConvId newMsgId d req)))"
    by (simp add: sendMessage_part001_def Let_def split_beta sendNewMessageNotification_keeps
          storeMessage_def split: option.splits)
  show ?thesis
    using thr rsp ind unfolding mem by blast
qed

theorem sendPushToUser_deactivates_invalid_witness:
  "fst (sendPushToUser exServices 9 exDb2 idB exNotification) = PushSent 1
 \<and> map (\<lambda>t. (fcmToken t, isActive t))
      (deviceTokens (snd (sendPushToUser exServices 9 exDb2 idB exNotification))) =
    [(''tok1'', True), (''tok2'', False), (''tok3'', True)]
 \<and> sendPushToUser exServicesDown 9 exDb2 idB exNotification = (PushError ''unavailable'', exDb2)
 \<and> fst (fst (sendMessage_part001 exValid exServices 9 idConv2 idMsg1 exDb2 (exSendReq ''hi''))) =
    fst (fst (sendMessage_part001 exValid exServicesDown 9 idConv2 idMsg1 exDb2
               (exSendReq ''hi'')))"
proof -
  have tk: "filter (\<lambda>t. t_userId t = idB \<and> isActive t) (deviceTokens exDb2) =
              [exToken ''tok1'', exToken ''tok2'', exToken ''tok3'']"
    by (simp add: exDb2_def exToken_def)
  have sv: "firebaseInitialized exServices" "firebaseInitialized exServicesDown"
      "provider exServices toks n =
         Responds [Delivered, Failed (Some ''messaging/registration-token-not-registered''),
                   Failed (Some ''messaging/internal-error'')]"
      "provider exServicesDown toks n = Throws ''unavailable''" for toks n
    by (simp_all add: exServices_def exServicesDown_def)
  from sendPushToUser_deactivates_invalid
         [where sv = exServicesDown and userId = idB and d = exDb2 and n = exNotification
            and now = 9 and isValid = exValid and newConvId = idConv2 and newMsgId = idMsg1
            and req = "exSendReq ''hi''" and sv' = exServices]
  have down: "sendPushToUser exServicesDown 9 exDb2 idB exNotification =
                (PushError ''unavailable'', exDb2)"
    and ind: "fst (fst (sendMessage_part001 exValid exServicesDown 9 idConv2 idMsg1 exDb2
                        (exSendReq ''hi''))) =
              fst (fst (sendMessage_part001 exValid exServices 9 idConv2 idMsg1 exDb2
                        (exSendReq ''hi'')))"
    by (simp_all add: tk sv)
  from sendPushToUser_deactivates_invalid
         [where sv = exServices and userId = idB and d = exDb2 and n = exNotification
            and now = 9 and isValid = exValid and newConvId = idConv2 and newMsgId = idMsg1
            and req = "exSendReq ''hi''" and sv' = exServices]
  have sent: "fst (sendPushToUser exServices 9 exDb2 idB exNotification) =
                PushSent (successCount
                  [Delivered, Failed (Some ''messaging/registration-token-not-registered''),
                   Failed (Some ''messaging/internal-error'')])"
    by (simp add: tk sv)
  have ev: "map (\<lambda>t. (fcmToken t, isActive t))
          (deviceTokens (snd (sendPushToUser exServices 9 exDb2 idB exNotification))) =
        [(''tok1'', True), (''tok2'', False), (''tok3'', True)]"
    by (simp add: sendPushToUser_def sendPushBody_def Let_def tk sv failedTokensOf_def
          failureCount_def invalidTokenCode_def exToken_def)
       (simp add: exDb2_def exToken_def)
  from down ind sent ev show ?thesis by (simp add: successCount_def)
qed

section \<open>Device token registration\<close>

lemma find_None_notin: "find (\<lambda>t. k t = v) xs = None \<Longrightarrow> v \<notin> set (map k xs)"
  by (auto simp: find_None_iff)

lemma registerDeviceToken_distinct:
  assumes "distinct (map fcmToken (deviceTokens d))"
  shows "distinct (map fcmToken
           (deviceTokens (snd (registerDeviceToken isValid now d userId tok plat dev))))"
  using assms
  by (auto simp: registerDeviceToken_def Let_def map_updateFirst_same
           dest: find_None_notin split: option.splits)

lemma registerDeviceToken_result:
  "fst (registerDeviceToken isValid now d userId tok plat dev) =
     (if tokenSchemaOk isValid userId tok (case plat of None \<Rightarrow> ''android'' | Some p \<Rightarrow> p)
      then Registered else RegisterFailed)"
  by (simp add: registerDeviceToken_def Let_def split: option.splits)

lemma registerAll_distinct:
  "distinct (map fcmToken (deviceTokens d)) \<Longrightarrow>
   distinct (map fcmToken (deviceTokens (registerAll isValid d rs)))"
proof (induction rs arbitrary: d)
  case Nil
  then show ?case by simp
next
  case (Cons r rs)
  obtain now userId tok plat dev where r: "r = (now, userId, tok, plat, dev)"
    by (cases r) auto
  show ?case
    unfolding r registerAll.simps
    by (rule Cons.IH) (rule registerDeviceToken_distinct[OF Cons.prems])
qed

text \<open>
  C8. A registration that succeeds for a token string that is already stored updates
  the stored record in place: the number of records does not change, the record with
  that token now has the new owner, platform and device id and is active, and no other
  record is touched. So a store in which no token string occurs twice (the empty store,
  to begin with) stays so after any sequence of registrations: every token string is
  held by at most one record, and therefore by at most one user.
\<close>

theorem registerDeviceToken_unique_token:
  "(distinct (map fcmToken (deviceTokens d)) \<longrightarrow>
      distinct (map fcmToken (deviceTokens (registerAll isValid d rs)))
    \<and> (\<forall>t1\<in>set (deviceTokens (registerAll isValid d rs)).
        \<forall>t2\<in>set (deviceTokens (registerAll isValid d rs)).
          fcmToken t1 = fcmToken t2 \<longrightarrow> t1 = t2))
 \<and> distinct (map fcmToken (deviceTokens (registerAll isValid emptyDb rs)))
 \<and> (\<forall>existing. fst (registerDeviceToken isValid now d userId tok plat dev) = Registered
        \<and> find (\<lambda>t. fcmToken t = tok) (deviceTokens d) = Some existing \<longrightarrow>
      length (deviceTokens (snd (registerDeviceToken isValid now d userId tok plat dev))) =
        length (deviceTokens d)
    \<and> find (\<lambda>t. fcmToken t = tok)
        (deviceTokens (snd (registerDeviceToken isValid now d userId tok plat dev))) =
        Some (existing\<lparr>t_userId := userId,
                        platform := (case plat of None \<Rightarrow> ''android'' | Some p \<Rightarrow> p),
                        deviceId := dev, isActive := True, t_updatedAt := now\<rparr>)
    \<and> filter (\<lambda>t. fcmToken t \<noteq> tok)
        (deviceTokens (snd (registerDeviceToken isValid now d userId tok plat dev))) =
        filter (\<lambda>t. fcmToken t \<noteq> tok) (deviceTokens d))"
proof -
  have inv: "distinct (map fcmToken (deviceTokens d)) \<longrightarrow>
      distinct (map fcmToken (deviceTokens (registerAll isValid d rs)))"
    using registerAll_distinct by blast
  have one: "distinct (map fcmToken ts) \<Longrightarrow>
             \<forall>t1\<in>set ts. \<forall>t2\<in>set ts. fcmToken t1 = fcmToken t2 \<longrightarrow> t1 = t2"
    for ts :: "deviceToken list"
    by (auto simp: distinct_map inj_on_def)
  have emp: "distinct (map fcmToken (deviceTokens (registerAll isValid emptyDb rs)))"
    by (rule registerAll_distinct) (simp add: emptyDb_def)
  have step: "\<forall>existing. fst (registerDeviceToken isValid now d userId tok plat dev) = Registered
        \<and> find (\<lambda>t. fcmToken t = tok) (deviceTokens d) = Some existing \<longrightarrow>
      length (deviceTokens (snd (registerDeviceToken isValid now d userId tok plat dev))) =
        length (deviceTokens d)
    \<and> find (\<lambda>t. fcmToken t = tok)
        (deviceTokens (snd (registerDeviceToken isValid now d userId tok plat dev))) =
        Some (existing\<lparr>t_userId := userId,
                        platform := (case plat of None \<Rightarrow> ''android'' | Some p \<Rightarrow> p),
                        deviceId := dev, isActive := True, t_updatedAt := now\<rparr>)
    \<and> filter (\<lambda>t. fcmToken t \<noteq> tok)
        (deviceTokens (snd (registerDeviceToken isValid now d userId tok plat dev))) =
        filter (\<lambda>t. fcmToken t \<noteq> tok) (deviceTokens d)"
    by (auto simp: registerDeviceToken_def Let_def length_updateFirst find_updateFirst
          filter_updateFirst_other split: if_splits)
  from inv one have both: "distinct (map fcmToken (deviceTokens d)) \<longrightarrow>
      distinct (map fcmToken (deviceTokens (registerAll isValid d rs)))
    \<and> (\<forall>t1\<in>set (deviceTokens (registerAll isValid d rs)).
        \<forall>t2\<in>set (deviceTokens (registerAll isValid d rs)).
          fcmToken t1 = fcmToken t2 \<longrightarrow> t1 = t2)"
    by blast
  from both emp step show ?thesis by (intro conjI)
qed

theorem registerDeviceToken_unique_token_witness:
  "map (\<lambda>t. (fcmToken t, t_userId t, platform t, deviceId t, isActive t))
     (deviceTokens (registerAll exValid emptyDb
        [(5, idA, ''tok1'', Some ''android'', Some ''dev1''),
         (6, idB, ''tok1'', Some ''ios'', Some ''dev2'')])) =
   [(''tok1'', idB, ''ios'', Some ''dev2'', True)]
 \<and> distinct (map fcmToken (deviceTokens (registerAll exValid emptyDb
        [(5, idA, ''tok1'', Some ''android'', Some ''dev1''),
         (6, idB, ''tok1'', Some ''ios'', Some ''dev2'')])))
 \<and> length (deviceTokens (snd (registerDeviceToken exValid 6
        (snd (registerDeviceToken exValid 5 emptyDb idA ''tok1'' (Some ''android'') (Some ''dev1'')))
        idB ''tok1'' (Some ''ios'') (Some ''dev2'')))) = 1"
proof -
  let ?d1 = "snd (registerDeviceToken exValid 5 emptyDb idA ''tok1'' (Some ''android'')
                    (Some ''dev1''))"
  let ?t1 = "\<lparr>t_userId = idA, fcmToken = ''tok1'', platform = ''android'',
              deviceId = Some ''dev1'', isActive = True, t_createdAt = 5, t_updatedAt = 5\<rparr>"
  have d1: "deviceTokens ?d1 = [?t1]"
    by (simp add: registerDeviceToken_def tokenSchemaOk_def emptyDb_def Let_def ex_ids)
  have ok: "fst (registerDeviceToken exValid 6 ?d1 idB ''tok1'' (Some ''ios'') (Some ''dev2'')) =
              Registered"
    by (simp add: registerDeviceToken_result tokenSchemaOk_def ex_ids)
  have fd: "find (\<lambda>t. fcmToken t = ''tok1'') (deviceTokens ?d1) = Some ?t1"
    unfolding d1 by simp
  note inst = registerDeviceToken_unique_token
            [where isValid = exValid and d = ?d1 and now = 6 and userId = idB
               and tok = "''tok1''" and plat = "Some ''ios''" and dev = "Some ''dev2''"
               and rs = "[(5, idA, ''tok1'', Some ''android'', Some ''dev1''),
                          (6, idB, ''tok1'', Some ''ios'', Some ''dev2'')]"]
  have a: "distinct (map fcmToken (deviceTokens (registerAll exValid emptyDb
        [(5, idA, ''tok1'', Some ''android'', Some ''dev1''),
         (6, idB, ''tok1'', Some ''ios'', Some ''dev2'')])))"
    using inst by (elim conjE)
  have c: "length (deviceTokens (snd (registerDeviceToken exValid 6 ?d1 idB ''tok1''
                      (Some ''ios'') (Some ''dev2'')))) = length (deviceTokens ?d1)"
    using conjunct2[OF conjunct2[OF inst]] ok fd by blast
  have b: "map (\<lambda>t. (fcmToken t, t_userId t, platform t, deviceId t, isActive t))
     (deviceTokens (registerAll exValid emptyDb
        [(5, idA, ''tok1'', Some ''android'', Some ''dev1''),
         (6, idB, ''tok1'', Some ''ios'', Some ''dev2'')])) =
   [(''tok1'', idB, ''ios'', Some ''dev2'', True)]"
    by (simp add: registerDeviceToken_def tokenSchemaOk_def emptyDb_def Let_def ex_ids)
  from b a c show ?thesis by (simp add: d1)
qed

end
